theory Spec2Isabelle
  imports Main "HOL-Library.Word"
begin

section \<open>Go strings and the standard-library functions the program calls\<close>

text \<open>
  A Go \<^verbatim>\<open>string\<close> is a sequence of bytes, and so is an Isabelle \<^typ>\<open>string\<close>
  (a list of 8-bit characters); text is UTF-8. A \<^verbatim>\<open>[]byte\<close> is a list of bytes.
\<close>

type_synonym byte = "8 word"

text \<open>
  \<^verbatim>\<open>unicode.IsSpace\<close> holds of the code points U+0009..U+000D, U+0020, U+0085, U+00A0,
  U+1680, U+2000..U+200A, U+2028, U+2029, U+202F, U+205F and U+3000. These are their
  UTF-8 encodings.
\<close>

definition whiteSpaceRunes :: "string list" where
  "whiteSpaceRunes =
     [[CHR 0x09], [CHR 0x0A], [CHR 0x0B], [CHR 0x0C], [CHR 0x0D], [CHR 0x20],
      [CHR 0xC2, CHR 0x85], [CHR 0xC2, CHR 0xA0],
      [CHR 0xE1, CHR 0x9A, CHR 0x80],
      [CHR 0xE2, CHR 0x80, CHR 0x80], [CHR 0xE2, CHR 0x80, CHR 0x81],
      [CHR 0xE2, CHR 0x80, CHR 0x82], [CHR 0xE2, CHR 0x80, CHR 0x83],
      [CHR 0xE2, CHR 0x80, CHR 0x84], [CHR 0xE2, CHR 0x80, CHR 0x85],
      [CHR 0xE2, CHR 0x80, CHR 0x86], [CHR 0xE2, CHR 0x80, CHR 0x87],
      [CHR 0xE2, CHR 0x80, CHR 0x88], [CHR 0xE2, CHR 0x80, CHR 0x89],
      [CHR 0xE2, CHR 0x80, CHR 0x8A],
      [CHR 0xE2, CHR 0x80, CHR 0xA8], [CHR 0xE2, CHR 0x80, CHR 0xA9],
      [CHR 0xE2, CHR 0x80, CHR 0xAF],
      [CHR 0xE2, CHR 0x81, CHR 0x9F],
      [CHR 0xE3, CHR 0x80, CHR 0x80]]"

text \<open>The rune of \<open>rs\<close> that \<open>s\<close> starts with, if there is one.\<close>

definition leadingRune :: "string list \<Rightarrow> string \<Rightarrow> string option" where
  "leadingRune rs s = find (\<lambda>q. q \<noteq> [] \<and> take (length q) s = q) rs"

text \<open>
  \<^verbatim>\<open>strings.TrimLeftFunc\<close>: drop runes from the front while they are among \<open>rs\<close>.
  A byte sequence that is not the encoding of one of them (a malformed one included,
  which Go decodes to U+FFFD) stops the scan.
\<close>

function trimLeftRunes :: "string list \<Rightarrow> string \<Rightarrow> string" where
  "trimLeftRunes rs s =
     (case leadingRune rs s of
        None \<Rightarrow> s
      | Some q \<Rightarrow> trimLeftRunes rs (drop (length q) s))"
  by pat_completeness auto
termination
proof (relation "measure (\<lambda>(rs, s). length s)")
  show "wf (measure (\<lambda>(rs, s). length s))"
    by simp
next
  fix rs :: "string list" and s q :: string
  assume "leadingRune rs s = Some q"
  then have q: "q \<noteq> []" "take (length q) s = q"
    by (auto simp: leadingRune_def find_Some_iff)
  have "length (take (length q) s) \<le> length s"
    by simp
  with q have "length q \<le> length s"
    by simp
  moreover from q have "0 < length q"
    by simp
  ultimately have "length s - length q < length s"
    by arith
  then show "((rs, drop (length q) s), (rs, s)) \<in> measure (\<lambda>(rs, s). length s)"
    by simp
qed

declare trimLeftRunes.simps [simp del]

text \<open>
  \<^verbatim>\<open>strings.TrimSpace\<close>: the string without its leading and trailing white space. Go's
  scan from the end decodes the last rune, which is a white-space rune exactly when the
  string ends with that rune's encoding.
\<close>

definition TrimSpace :: "string \<Rightarrow> string" where
  "TrimSpace s =
     rev (trimLeftRunes (map rev whiteSpaceRunes) (rev (trimLeftRunes whiteSpaceRunes s)))"

text \<open>
  \<^verbatim>\<open>strings.Split(s, sep)\<close> for a one-byte separator: the pieces between the separators,
  one more than there are separators (so the empty string gives one empty piece).
  \<open>cur\<close> holds the bytes of the current piece, last first.
\<close>

fun splitFrom :: "char \<Rightarrow> string \<Rightarrow> string \<Rightarrow> string list" where
  "splitFrom sep cur [] = [rev cur]"
| "splitFrom sep cur (c # cs) =
     (if c = sep then rev cur # splitFrom sep [] cs else splitFrom sep (c # cur) cs)"

definition Split :: "string \<Rightarrow> char \<Rightarrow> string list" where
  "Split s sep = splitFrom sep [] s"

text \<open>
  \<^verbatim>\<open>filepath.Ext\<close> (Unix): scanning from the last byte back to the last slash, the suffix
  that starts at the first dot met; empty when no dot is met. \<open>seen\<close> holds the bytes
  already passed, in the order of the path.
\<close>

fun extScan :: "string \<Rightarrow> string \<Rightarrow> string" where
  "extScan [] seen = []"
| "extScan (c # cs) seen =
     (if c = CHR ''/'' then []
      else if c = CHR ''.'' then c # seen
      else extScan cs (c # seen))"

definition Ext :: "string \<Rightarrow> string" where
  "Ext path = extScan (rev path) []"

text \<open>
  \<^verbatim>\<open>filepath.Base\<close> (Unix): the last element of the path, trailing slashes removed;
  \<^verbatim>\<open>.\<close> for the empty path and \<^verbatim>\<open>/\<close> for a path of slashes only.
\<close>

definition Base :: "string \<Rightarrow> string" where
  "Base path =
     (if path = [] then ''.''
      else let stripped = rev (dropWhile (\<lambda>c. c = CHR ''/'') (rev path));
               element = rev (takeWhile (\<lambda>c. c \<noteq> CHR ''/'') (rev stripped))
           in if element = [] then ''/'' else element)"

text \<open>
  \<^verbatim>\<open>strings.ToLower\<close>. On ASCII it maps \<^verbatim>\<open>A..Z\<close> to \<^verbatim>\<open>a..z\<close>. Two code points outside
  ASCII have an ASCII lower case: U+0130 (bytes C4 B0) gives \<^verbatim>\<open>i\<close> and U+212A (bytes
  E2 84 AA) gives \<^verbatim>\<open>k\<close>. Every other rune outside ASCII is mapped by Go to a rune outside
  ASCII; the model leaves its bytes as they are, which is all that a comparison of the
  result with an ASCII string can see.
\<close>

definition lowerByte :: "char \<Rightarrow> char" where
  "lowerByte c =
     (if 65 \<le> (of_char c :: nat) \<and> (of_char c :: nat) \<le> 90
      then char_of ((of_char c :: nat) + 32) else c)"

fun ToLower :: "string \<Rightarrow> string" where
  "ToLower [] = []"
| "ToLower (c # cs) =
     (if c = CHR 0xC4 \<and> take 1 cs = [CHR 0xB0] then CHR ''i'' # ToLower (drop 1 cs)
      else if c = CHR 0xE2 \<and> take 2 cs = [CHR 0x84, CHR 0xAA] then CHR ''k'' # ToLower (drop 2 cs)
      else lowerByte c # ToLower cs)"

text \<open>The verb \<^verbatim>\<open>%d\<close> of \<^verbatim>\<open>fmt\<close> on a number that is not negative: its decimal digits.\<close>

definition digitChar :: "nat \<Rightarrow> char" where
  "digitChar d = ''0123456789'' ! d"

function Itoa :: "nat \<Rightarrow> string" where
  "Itoa n = (if n < 10 then [digitChar n] else Itoa (n div 10) @ [digitChar (n mod 10)])"
  by pat_completeness auto
termination
  by (relation "measure id") auto

declare Itoa.simps [simp del]

section \<open>The data model (embed.go, video.go, main.go)\<close>

record BlobRef =
  Link :: string

record Blob =
  Type :: string
  Ref :: BlobRef
  MimeType :: string
  Size :: int

record AspectRatio =
  Width :: int
  Height :: int

record EmbedImage =
  Alt :: string
  Image :: Blob
  AspectRatio :: "AspectRatio option"

record EmbedImages =
  Type :: string
  Images :: "EmbedImage list"

record Caption =
  Lang :: string
  File :: Blob

record EmbedVideo =
  Type :: string
  Video :: Blob
  AspectRatio :: "AspectRatio option"
  Alt :: string
  Captions :: "Caption list"

record EmbedExternalContent =
  URI :: string
  Title :: string
  Description :: string

record EmbedExternal =
  Type :: string
  External :: EmbedExternalContent

record RichTextIndex =
  ByteStart :: int
  ByteEnd :: int

record RichTextFeature =
  Type :: string
  URI :: string

record RichTextFacet =
  Index :: RichTextIndex
  Features :: "RichTextFeature list"

record VideoJobStatus =
  JobID :: string
  State :: string
  Progress :: int
  Blob :: "Blob option"
  Error :: string
  Message :: string

record VideoUploadResponse =
  JobID :: string
  Status :: "VideoJobStatus option"

text \<open>The anonymous struct that \<^verbatim>\<open>getVideoJobStatus\<close> decodes a failed response into.\<close>

record errorResp =
  Error :: string
  Message :: string
  Status :: "VideoJobStatus option"

record SessionResponse =
  AccessToken :: string
  UserID :: string

text \<open>
  The field \<^verbatim>\<open>Embed interface{}\<close> of a post: the nil interface, or a pointer of one of
  three types, which may itself be nil (a nil pointer stored in an interface is not
  the nil interface).
\<close>

datatype embed =
    NoEmbed
  | VideoPtr "EmbedVideo option"
  | ImagesPtr "EmbedImages option"
  | ExternalPtr "EmbedExternal option"

record Post =
  Type :: string
  Text :: string
  CreatedAt :: string
  Langs :: "string list"
  Facets :: "RichTextFacet list"
  Embed :: embed

record ActionInputs =
  PDSURL :: string
  Handle :: string
  Password :: string
  Text :: string
  Lang :: "string list"
  LogLevel :: string
  EnableEmbeds :: bool
  ImagePaths :: string
  ImageAltTexts :: string
  VideoPath :: string
  VideoAltText :: string

section \<open>Errors\<close>

text \<open>
  One constructor for each \<^verbatim>\<open>fmt.Errorf\<close> of image.go and video.go, with its arguments;
  \<open>Foreign\<close> is an error made elsewhere (the operating system, the network, a decoder,
  the HTTP helpers of main.go), known by its message. A Go \<^verbatim>\<open>error\<close> result is an
  \<open>error option\<close> (\<open>None\<close> is nil), a result with a value is a sum with the error on
  the left.
\<close>

datatype error =
    Foreign string
  | ImageSizeExceeded string nat nat
  | UnsupportedImageFormat string
  | TooManyImages nat nat
  | ReadImageFailed string error
  | UploadImageFailed string error
  | VideoSizeExceeded string nat nat
  | UnsupportedVideoFormat string
  | JobStatusCode nat
  | ProcessingTimedOut
  | ProcessingFailed string
  | ReadVideoFailed string error
  | ServiceAuthFailed error
  | UploadVideoFailed error
  | VideoProcessingFailed error

text \<open>
  The message of an error (\<^verbatim>\<open>err.Error()\<close>), as the format strings of the source build
  it; \<^verbatim>\<open>%v\<close> of the duration \<^verbatim>\<open>5 * time.Minute\<close> prints \<^verbatim>\<open>5m0s\<close>, and \<^verbatim>\<open>%w\<close> prints the
  message of the wrapped error.
\<close>

fun errorString :: "error \<Rightarrow> string" where
  "errorString (Foreign msg) = msg"
| "errorString (ImageSizeExceeded path limit got) =
     ''image '' @ path @ '' exceeds maximum size of '' @ Itoa limit @ '' bytes (got ''
       @ Itoa got @ '' bytes)''"
| "errorString (UnsupportedImageFormat path) =
     ''unsupported image format for file '' @ path @ '' (supported: JPEG, PNG, GIF, WebP)''"
| "errorString (TooManyImages limit got) =
     ''maximum '' @ Itoa limit @ '' images allowed per post, got '' @ Itoa got"
| "errorString (ReadImageFailed path err) =
     ''failed to read image file '' @ path @ '': '' @ errorString err"
| "errorString (UploadImageFailed path err) =
     ''failed to upload image '' @ path @ '': '' @ errorString err"
| "errorString (VideoSizeExceeded path limit got) =
     ''video '' @ path @ '' exceeds maximum size of '' @ Itoa limit @ '' bytes (got ''
       @ Itoa got @ '' bytes)''"
| "errorString (UnsupportedVideoFormat path) =
     ''unsupported video format for file '' @ path @ '' (supported: MP4, MOV, WebM)''"
| "errorString (JobStatusCode code) =
     ''failed to get job status, status code: '' @ Itoa code"
| "errorString ProcessingTimedOut = ''video processing timed out after 5m0s''"
| "errorString (ProcessingFailed msg) = ''video processing failed: '' @ msg"
| "errorString (ReadVideoFailed path err) =
     ''failed to read video file '' @ path @ '': '' @ errorString err"
| "errorString (ServiceAuthFailed err) =
     ''failed to get service auth token: '' @ errorString err"
| "errorString (UploadVideoFailed err) = ''failed to upload video: '' @ errorString err"
| "errorString (VideoProcessingFailed err) = ''video processing failed: '' @ errorString err"

section \<open>The world outside the process\<close>

text \<open>
  What a job-status request can come back with: no response at all, or a status code
  and a body. A body is either one that \<^verbatim>\<open>json.Unmarshal\<close> rejects (with the decoder's
  error), or a JSON object, given by its members \<^verbatim>\<open>error\<close>, \<^verbatim>\<open>message\<close> and \<^verbatim>\<open>jobStatus\<close>
  (\<open>None\<close> for a member that is absent or null); members that neither struct of
  \<^verbatim>\<open>getVideoJobStatus\<close> has are ignored by the decoder.
\<close>

datatype body =
    Malformed string
  | Object "string option" "string option" "VideoJobStatus option"

datatype reply =
    NoResponse error
  | Response nat body

text \<open>What the process does to the world, in the order in which it does it.\<close>

datatype event =
    CreateSession string string
  | ReadFile string
  | UploadBlob string nat
  | GetServiceAuth string
  | UploadVideo string string nat
  | GetJobStatus string string
  | Sleep nat
  | FetchLinkMetadata string
  | PublishPost Post

text \<open>
  The answers of the world. The HTTP helpers of main.go and video.go
  (\<^verbatim>\<open>createSession\<close>, \<^verbatim>\<open>publishPost\<close>, \<^verbatim>\<open>uploadBlob\<close>, \<^verbatim>\<open>getServiceAuthToken\<close>,
  \<^verbatim>\<open>uploadVideoToService\<close>), the link-card fetcher and the regular-expression scan
  \<^verbatim>\<open>parseRichTextFacets\<close> of facet.go, \<^verbatim>\<open>os.ReadFile\<close> and \<^verbatim>\<open>image.DecodeConfig\<close> are
  taken by their results: each is a function of its arguments, and \<^verbatim>\<open>uploadBlob\<close>,
  the only one called more than once in a run, also of what happened before the call.
  Every call comes back: a request that hangs for ever (the client of the job-status
  request sets no timeout) is not a run of this model.
  Times are in nanoseconds, as \<^verbatim>\<open>time.Duration\<close> counts them, read off the monotonic
  clock:
  \<^item> \<open>firstCheck\<close> is the time between \<^verbatim>\<open>startTime := time.Now()\<close> and the first
    reading of \<^verbatim>\<open>time.Since(startTime)\<close>;
  \<^item> \<open>jobStatusReply k\<close> is what request number \<open>k\<close> (from 0) for the job status comes
    back with, and \<open>jobStatusTook k\<close> the time from the deadline check before it to the
    call of \<^verbatim>\<open>time.Sleep\<close> after it;
  \<^item> \<open>overslept k\<close> is the time by which sleep number \<open>k\<close> and the way back to the next
    deadline check exceed the requested delay (\<^verbatim>\<open>time.Sleep\<close> pauses for at least the
    duration asked).
\<close>

record world =
  createSession :: "string \<Rightarrow> string \<Rightarrow> string \<Rightarrow> error + SessionResponse"
  parseRichTextFacets :: "string \<Rightarrow> RichTextFacet list"
  fetchLinkMetadata :: "string \<Rightarrow> EmbedExternal option"
  readFile :: "string \<Rightarrow> error + byte list"
  decodeConfig :: "byte list \<Rightarrow> (int \<times> int) option"
  uploadBlob :: "event list \<Rightarrow> string \<Rightarrow> string \<Rightarrow> byte list \<Rightarrow> string \<Rightarrow> error + Blob"
  getServiceAuthToken :: "string \<Rightarrow> string \<Rightarrow> string \<Rightarrow> error + string"
  uploadVideoToService ::
    "string \<Rightarrow> string \<Rightarrow> byte list \<Rightarrow> string \<Rightarrow> string \<Rightarrow> error + VideoUploadResponse"
  firstCheck :: nat
  jobStatusReply :: "nat \<Rightarrow> reply"
  jobStatusTook :: "nat \<Rightarrow> nat"
  overslept :: "nat \<Rightarrow> nat"
  timeNow :: string
  publishPost :: "Post \<Rightarrow> error option"

section \<open>image.go\<close>

definition maxImagesPerPost :: nat where
  "maxImagesPerPost = 4"

definition maxImageSize :: nat where
  "maxImageSize = 1000000"

definition detectImageMimeType :: "string \<Rightarrow> string" where
  "detectImageMimeType filename =
     (let ext = ToLower (Ext filename)
      in if ext = ''.jpg'' \<or> ext = ''.jpeg'' then ''image/jpeg''
         else if ext = ''.png'' then ''image/png''
         else if ext = ''.gif'' then ''image/gif''
         else if ext = ''.webp'' then ''image/webp''
         else '''')"

definition validateImageData :: "string \<Rightarrow> byte list \<Rightarrow> error option" where
  "validateImageData path imageData =
     (if length imageData > maxImageSize
      then Some (ImageSizeExceeded path maxImageSize (length imageData))
      else let mimeType = detectImageMimeType path
           in if mimeType = '''' then Some (UnsupportedImageFormat path) else None)"

definition getImageDimensions :: "world \<Rightarrow> byte list \<Rightarrow> AspectRatio option" where
  "getImageDimensions w imageData =
     (case decodeConfig w imageData of
        None \<Rightarrow> None
      | Some (width, height) \<Rightarrow> Some \<lparr>Width = width, Height = height\<rparr>)"

text \<open>The index is that of a \<^verbatim>\<open>range\<close> loop, so it is never negative.\<close>

definition resolveAltText :: "nat \<Rightarrow> string list \<Rightarrow> string" where
  "resolveAltText index altTexts =
     (if index < length altTexts \<and> TrimSpace (altTexts ! index) \<noteq> ''''
      then TrimSpace (altTexts ! index)
      else if length altTexts = 1 \<and> TrimSpace (altTexts ! 0) \<noteq> ''''
      then TrimSpace (altTexts ! 0)
      else ''Image '' @ Itoa (index + 1))"

text \<open>The loop of \<^verbatim>\<open>parseImagePaths\<close> over the pieces, appending the trimmed ones that are not empty.\<close>

fun validPaths :: "string list \<Rightarrow> string list" where
  "validPaths [] = []"
| "validPaths (path # paths) =
     (let trimmed = TrimSpace path
      in if trimmed \<noteq> '''' then trimmed # validPaths paths else validPaths paths)"

definition parseImagePaths :: "string \<Rightarrow> string list" where
  "parseImagePaths imagePaths =
     (if imagePaths = '''' then [] else validPaths (Split imagePaths CHR '',''))"

definition processImage ::
  "world \<Rightarrow> string \<Rightarrow> string \<Rightarrow> string \<Rightarrow> string \<Rightarrow> event list
     \<Rightarrow> (error + EmbedImage) \<times> event list" where
  "processImage w pdsURL accessToken path altText tr =
     (case readFile w path of
        Inl err \<Rightarrow> (Inl (ReadImageFailed path err), tr @ [ReadFile path])
      | Inr imageData \<Rightarrow>
          (case validateImageData path imageData of
             Some err \<Rightarrow> (Inl err, tr @ [ReadFile path])
           | None \<Rightarrow>
               let mimeType = detectImageMimeType path;
                   tr' = tr @ [ReadFile path, UploadBlob mimeType (length imageData)]
               in (case uploadBlob w tr pdsURL accessToken imageData mimeType of
                     Inl err \<Rightarrow> (Inl (UploadImageFailed path err), tr')
                   | Inr blob \<Rightarrow>
                       let aspectRatio = getImageDimensions w imageData
                       in (Inr \<lparr>EmbedImage.Alt = altText, Image = blob,
                                AspectRatio = aspectRatio\<rparr>, tr'))))"

text \<open>
  The loop of \<^verbatim>\<open>processImages\<close>: \<open>i\<close> is the index of the next path, \<open>embedImages\<close> what
  has been appended so far.
\<close>

fun processImagesLoop ::
  "world \<Rightarrow> string \<Rightarrow> string \<Rightarrow> string list \<Rightarrow> nat \<Rightarrow> string list \<Rightarrow> EmbedImage list
     \<Rightarrow> event list \<Rightarrow> (error + EmbedImage list) \<times> event list" where
  "processImagesLoop w pdsURL accessToken alts i [] embedImages tr = (Inr embedImages, tr)"
| "processImagesLoop w pdsURL accessToken alts i (path # paths) embedImages tr =
     (let altText = resolveAltText i alts
      in case processImage w pdsURL accessToken path altText tr of
           (Inl err, tr') \<Rightarrow> (Inl err, tr')
         | (Inr embedImage, tr') \<Rightarrow>
             processImagesLoop w pdsURL accessToken alts (i + 1) paths
               (embedImages @ [embedImage]) tr')"

text \<open>The result \<open>Inr None\<close> is the pair of a nil pointer and a nil error.\<close>

definition processImages ::
  "world \<Rightarrow> string \<Rightarrow> string \<Rightarrow> string \<Rightarrow> string \<Rightarrow> event list
     \<Rightarrow> (error + EmbedImages option) \<times> event list" where
  "processImages w pdsURL accessToken imagePaths altTexts tr =
     (let paths = parseImagePaths imagePaths
      in if length paths = 0 then (Inr None, tr)
         else if length paths > maxImagesPerPost
         then (Inl (TooManyImages maxImagesPerPost (length paths)), tr)
         else let alts = Split altTexts CHR '',''
              in case processImagesLoop w pdsURL accessToken alts 0 paths [] tr of
                   (Inl err, tr') \<Rightarrow> (Inl err, tr')
                 | (Inr embedImages, tr') \<Rightarrow>
                     (Inr (Some \<lparr>EmbedImages.Type = ''app.bsky.embed.images'',
                                 Images = embedImages\<rparr>), tr'))"

section \<open>video.go\<close>

definition maxVideoSize :: nat where
  "maxVideoSize = 50 * 1024 * 1024"

definition videoStatusPollDelay :: nat where
  "videoStatusPollDelay = 2 * 1000000000"

definition videoStatusMaxWait :: nat where
  "videoStatusMaxWait = 5 * (60 * 1000000000)"

definition detectVideoMimeType :: "string \<Rightarrow> string" where
  "detectVideoMimeType filename =
     (let ext = ToLower (Ext filename)
      in if ext = ''.mp4'' then ''video/mp4''
         else if ext = ''.mov'' then ''video/quicktime''
         else if ext = ''.webm'' then ''video/webm''
         else '''')"

definition validateVideoData :: "string \<Rightarrow> byte list \<Rightarrow> error option" where
  "validateVideoData path videoData =
     (if length videoData > maxVideoSize
      then Some (VideoSizeExceeded path maxVideoSize (length videoData))
      else let mimeType = detectVideoMimeType path
           in if mimeType = '''' then Some (UnsupportedVideoFormat path) else None)"

text \<open>
  \<^verbatim>\<open>json.Unmarshal\<close> of a body into the two structs of \<^verbatim>\<open>getVideoJobStatus\<close>. A string
  member that is absent stays the empty string; the struct \<^verbatim>\<open>JobStatus\<close> of a success
  response, which is not a pointer, stays the zero value when the member is absent.
\<close>

definition unmarshalErrorResp :: "body \<Rightarrow> error + errorResp" where
  "unmarshalErrorResp b =
     (case b of
        Malformed msg \<Rightarrow> Inl (Foreign msg)
      | Object err msg st \<Rightarrow>
          Inr \<lparr>errorResp.Error = (case err of None \<Rightarrow> '''' | Some e \<Rightarrow> e),
               Message = (case msg of None \<Rightarrow> '''' | Some m \<Rightarrow> m),
               Status = st\<rparr>)"

definition unmarshalStatusResp :: "body \<Rightarrow> error + VideoJobStatus" where
  "unmarshalStatusResp b =
     (case b of
        Malformed msg \<Rightarrow> Inl (Foreign msg)
      | Object err msg st \<Rightarrow>
          (case st of
             None \<Rightarrow> Inr \<lparr>VideoJobStatus.JobID = '''', State = '''', Progress = 0, Blob = None,
                          Error = '''', Message = ''''\<rparr>
           | Some jobStatus \<Rightarrow> Inr jobStatus))"

text \<open>\<^verbatim>\<open>getVideoJobStatus\<close>, from the point where the request has come back.\<close>

fun getVideoJobStatus :: "reply \<Rightarrow> error + VideoJobStatus" where
  "getVideoJobStatus (NoResponse err) = Inl err"
| "getVideoJobStatus (Response statusCode b) =
     (if statusCode \<noteq> 200 then
        (case unmarshalErrorResp b of
           Inr errorResp \<Rightarrow>
             (case errorResp.Status errorResp of
                Some status \<Rightarrow>
                  if errorResp.Error errorResp = ''already_exists''
                     \<and> VideoJobStatus.Blob status \<noteq> None
                  then Inr status
                  else Inl (JobStatusCode statusCode)
              | None \<Rightarrow> Inl (JobStatusCode statusCode))
         | Inl err \<Rightarrow> Inl (JobStatusCode statusCode))
      else
        (case unmarshalStatusResp b of
           Inl err \<Rightarrow> Inl err
         | Inr jobStatus \<Rightarrow> Inr jobStatus))"

text \<open>
  The loop of \<^verbatim>\<open>pollVideoJobUntilComplete\<close>. \<open>k\<close> counts the requests made so far and
  \<open>elapsed\<close> is what \<^verbatim>\<open>time.Since(startTime)\<close> reads at the top of this iteration.
\<close>

function pollLoop ::
  "world \<Rightarrow> string \<Rightarrow> string \<Rightarrow> nat \<Rightarrow> nat \<Rightarrow> event list \<Rightarrow> (error + Blob) \<times> event list" where
  "pollLoop w serviceToken jobID k elapsed tr =
     (if elapsed > videoStatusMaxWait then (Inl ProcessingTimedOut, tr)
      else
        (case getVideoJobStatus (jobStatusReply w k) of
           Inl err \<Rightarrow> (Inl err, tr @ [GetJobStatus serviceToken jobID])
         | Inr status \<Rightarrow>
             (case VideoJobStatus.Blob status of
                Some blob \<Rightarrow> (Inr blob, tr @ [GetJobStatus serviceToken jobID])
              | None \<Rightarrow>
                  if State status = ''failed'' \<or> VideoJobStatus.Error status \<noteq> ''''
                  then (Inl (ProcessingFailed (VideoJobStatus.Error status)),
                        tr @ [GetJobStatus serviceToken jobID])
                  else pollLoop w serviceToken jobID (k + 1)
                         (elapsed + jobStatusTook w k + videoStatusPollDelay + overslept w k)
                         (tr @ [GetJobStatus serviceToken jobID, Sleep videoStatusPollDelay]))))"
  by pat_completeness auto
termination
  by (relation "measure (\<lambda>(w, serviceToken, jobID, k, elapsed, tr). Suc videoStatusMaxWait - elapsed)")
     (auto simp: videoStatusPollDelay_def)

declare pollLoop.simps [simp del]

definition pollVideoJobUntilComplete ::
  "world \<Rightarrow> string \<Rightarrow> string \<Rightarrow> event list \<Rightarrow> (error + Blob) \<times> event list" where
  "pollVideoJobUntilComplete w serviceToken jobID tr =
     pollLoop w serviceToken jobID 0 (firstCheck w) tr"

definition processVideo ::
  "world \<Rightarrow> string \<Rightarrow> string \<Rightarrow> string \<Rightarrow> string \<Rightarrow> string \<Rightarrow> event list
     \<Rightarrow> (error + EmbedVideo) \<times> event list" where
  "processVideo w pdsURL accessToken userDID path altText tr =
     (case readFile w path of
        Inl err \<Rightarrow> (Inl (ReadVideoFailed path err), tr @ [ReadFile path])
      | Inr videoData \<Rightarrow>
     (case validateVideoData path videoData of
        Some err \<Rightarrow> (Inl err, tr @ [ReadFile path])
      | None \<Rightarrow>
     let mimeType = detectVideoMimeType path;
         filename = Base path;
         tr1 = tr @ [ReadFile path, GetServiceAuth pdsURL]
     in
     (case getServiceAuthToken w pdsURL accessToken userDID of
        Inl err \<Rightarrow> (Inl (ServiceAuthFailed err), tr1)
      | Inr serviceToken \<Rightarrow>
     let tr2 = tr1 @ [UploadVideo filename mimeType (length videoData)] in
     (case uploadVideoToService w userDID serviceToken videoData filename mimeType of
        Inl err \<Rightarrow> (Inl (UploadVideoFailed err), tr2)
      | Inr uploadResp \<Rightarrow>
     (case Option.bind (VideoUploadResponse.Status uploadResp) VideoJobStatus.Blob of
        Some blob \<Rightarrow>
          (Inr \<lparr>EmbedVideo.Type = ''app.bsky.embed.video'', Video = blob,
                AspectRatio = None, Alt = altText, Captions = []\<rparr>, tr2)
      | None \<Rightarrow>
     (case pollVideoJobUntilComplete w serviceToken (VideoUploadResponse.JobID uploadResp) tr2 of
        (Inl err, tr3) \<Rightarrow> (Inl (VideoProcessingFailed err), tr3)
      | (Inr blob, tr3) \<Rightarrow>
          (Inr \<lparr>EmbedVideo.Type = ''app.bsky.embed.video'', Video = blob,
                AspectRatio = None, Alt = altText, Captions = []\<rparr>, tr3)))))))"

definition processVideos ::
  "world \<Rightarrow> string \<Rightarrow> string \<Rightarrow> string \<Rightarrow> string \<Rightarrow> string \<Rightarrow> event list
     \<Rightarrow> (error + EmbedVideo option) \<times> event list" where
  "processVideos w pdsURL accessToken userDID videoPath altText tr =
     (if videoPath = '''' then (Inr None, tr)
      else let path = TrimSpace videoPath
           in if path = '''' then (Inr None, tr)
              else let altText' = (if altText = '''' then ''Video'' else altText)
                   in case processVideo w pdsURL accessToken userDID path (TrimSpace altText') tr of
                        (Inl err, tr') \<Rightarrow> (Inl err, tr')
                      | (Inr videoEmbed, tr') \<Rightarrow> (Inr (Some videoEmbed), tr'))"

section \<open>main.go\<close>

text \<open>
  How a run ends: \<^verbatim>\<open>main\<close> returns, or it logs an error and calls \<^verbatim>\<open>os.Exit(1)\<close>, or
  the Go runtime panics.
\<close>

datatype panic = NilPointerDereference | IndexOutOfRange

datatype outcome = Returned | Exit1 error | Panic panic

text \<open>
  \<^verbatim>\<open>main\<close>, from the parsed arguments on. The \<^verbatim>\<open>if\<close> chain gives the variable \<^verbatim>\<open>embed\<close>
  its value (\<open>embedded\<close> below), unless the run ends inside it. The arguments of a log call are evaluated
  whatever the log level is, so \<^verbatim>\<open>len(imageEmbed.Images)\<close> reads through the pointer
  that \<^verbatim>\<open>processImages\<close> returned.
\<close>

definition main :: "world \<Rightarrow> ActionInputs \<Rightarrow> outcome \<times> event list" where
  "main w args =
     (let tr0 = [CreateSession (PDSURL args) (Handle args)] in
      case createSession w (PDSURL args) (Handle args) (Password args) of
        Inl err \<Rightarrow> (Exit1 err, tr0)
      | Inr session \<Rightarrow>
     (let facets = parseRichTextFacets w (ActionInputs.Text args);
          chosen =
            (if VideoPath args \<noteq> '''' then
               (case processVideos w (PDSURL args) (AccessToken session) (UserID session)
                       (VideoPath args) (VideoAltText args) tr0 of
                  (Inl err, tr) \<Rightarrow> (Inl (Exit1 err), tr)
                | (Inr videoEmbed, tr) \<Rightarrow> (Inr (VideoPtr videoEmbed), tr))
             else if ImagePaths args \<noteq> '''' then
               (case processImages w (PDSURL args) (AccessToken session)
                       (ImagePaths args) (ImageAltTexts args) tr0 of
                  (Inl err, tr) \<Rightarrow> (Inl (Exit1 err), tr)
                | (Inr imageEmbed, tr) \<Rightarrow>
                    (case imageEmbed of
                       None \<Rightarrow> (Inl (Panic NilPointerDereference), tr)
                     | Some images \<Rightarrow> (Inr (ImagesPtr imageEmbed), tr)))
             else if EnableEmbeds args \<and> length facets > 0 then
               (case Features (facets ! 0) of
                  [] \<Rightarrow> (Inl (Panic IndexOutOfRange), tr0)
                | feature # _ \<Rightarrow>
                    let firstURL = RichTextFeature.URI feature
                    in (Inr (ExternalPtr (fetchLinkMetadata w firstURL)),
                        tr0 @ [FetchLinkMetadata firstURL]))
             else (Inr NoEmbed, tr0))
      in case chosen of
           (Inl ended, tr) \<Rightarrow> (ended, tr)
         | (Inr embedded, tr) \<Rightarrow>
             let post = \<lparr>Post.Type = ''app.bsky.feed.post'', Text = ActionInputs.Text args,
                         CreatedAt = timeNow w, Langs = Lang args, Facets = facets,
                         Embed = embedded\<rparr>
             in (case publishPost w post of
                   Some err \<Rightarrow> (Exit1 err, tr @ [PublishPost post])
                 | None \<Rightarrow> (Returned, tr @ [PublishPost post]))))"

section \<open>Notions used in the statements\<close>

text \<open>
  What \<^verbatim>\<open>time.Since(startTime)\<close> reads at the top of iteration \<open>n\<close> of the polling loop,
  when the loop gets that far: every iteration before it made one request and slept once.
\<close>

fun elapsedAt :: "world \<Rightarrow> nat \<Rightarrow> nat" where
  "elapsedAt w 0 = firstCheck w"
| "elapsedAt w (Suc n) =
     elapsedAt w n + jobStatusTook w n + videoStatusPollDelay + overslept w n"

text \<open>What \<open>n\<close> iterations of the polling loop that go on to the next one do.\<close>

definition pollRounds :: "string \<Rightarrow> string \<Rightarrow> nat \<Rightarrow> event list" where
  "pollRounds serviceToken jobID n =
     concat (replicate n [GetJobStatus serviceToken jobID, Sleep videoStatusPollDelay])"

text \<open>A job status that neither ends the polling loop nor fails it.\<close>

definition pending :: "VideoJobStatus \<Rightarrow> bool" where
  "pending status \<longleftrightarrow>
     VideoJobStatus.Blob status = None \<and> State status \<noteq> ''failed''
     \<and> VideoJobStatus.Error status = ''''"

text \<open>The post that \<^verbatim>\<open>main\<close> builds around an embed.\<close>

definition postWith :: "world \<Rightarrow> ActionInputs \<Rightarrow> embed \<Rightarrow> Post" where
  "postWith w args embedded =
     \<lparr>Post.Type = ''app.bsky.feed.post'', Text = ActionInputs.Text args,
      CreatedAt = timeNow w, Langs = Lang args,
      Facets = parseRichTextFacets w (ActionInputs.Text args), Embed = embedded\<rparr>"

text \<open>
  The run, having done \<open>tr\<close>, submits the post with this embed, and ends as the
  publisher answers.
\<close>

definition submits :: "world \<Rightarrow> ActionInputs \<Rightarrow> embed \<Rightarrow> event list \<Rightarrow> bool" where
  "submits w args embedded tr \<longleftrightarrow>
     main w args =
       ((case publishPost w (postWith w args embedded) of
           Some err \<Rightarrow> Exit1 err
         | None \<Rightarrow> Returned),
        tr @ [PublishPost (postWith w args embedded)])"

fun isUploadBlob :: "event \<Rightarrow> bool" where
  "isUploadBlob (UploadBlob mimeType n) = True"
| "isUploadBlob ev = False"

fun isFetchLinkMetadata :: "event \<Rightarrow> bool" where
  "isFetchLinkMetadata (FetchLinkMetadata url) = True"
| "isFetchLinkMetadata ev = False"

fun isVideoCall :: "event \<Rightarrow> bool" where
  "isVideoCall (GetServiceAuth pdsURL) = True"
| "isVideoCall (UploadVideo filename mimeType n) = True"
| "isVideoCall (GetJobStatus serviceToken jobID) = True"
| "isVideoCall ev = False"

section \<open>Example runs\<close>

text \<open>
  A world in which every call succeeds: the session is created, every file holds 1024
  zero bytes, every upload is accepted, and the video service reports the job as still
  being processed, instantly, whenever it is asked.
\<close>

definition exampleBlob :: Blob where
  "exampleBlob =
     \<lparr>Blob.Type = ''blob'', Ref = \<lparr>Link = ''bafkreimockblob''\<rparr>,
      MimeType = ''video/mp4'', Size = 1024\<rparr>"

definition processingStatus :: VideoJobStatus where
  "processingStatus =
     \<lparr>VideoJobStatus.JobID = ''job123'', State = ''JOB_STATE_ENCODING'', Progress = 50,
      Blob = None, Error = '''', Message = ''''\<rparr>"

definition completedStatus :: VideoJobStatus where
  "completedStatus =
     \<lparr>VideoJobStatus.JobID = ''job123'', State = ''JOB_STATE_COMPLETED'', Progress = 100,
      Blob = Some exampleBlob, Error = '''', Message = ''''\<rparr>"

definition exampleWorld :: world where
  "exampleWorld =
     \<lparr>createSession =
        (\<lambda>pdsURL handle password. Inr \<lparr>AccessToken = ''jwt'', UserID = ''did:plc:test''\<rparr>),
      parseRichTextFacets = (\<lambda>text. []),
      fetchLinkMetadata = (\<lambda>url. None),
      readFile = (\<lambda>path. Inr (replicate 1024 0)),
      decodeConfig = (\<lambda>imageData. Some (1, 1)),
      uploadBlob = (\<lambda>tr pdsURL accessToken imageData mimeType. Inr exampleBlob),
      getServiceAuthToken = (\<lambda>pdsURL accessToken userDID. Inr ''service-token''),
      uploadVideoToService =
        (\<lambda>userDID serviceToken videoData filename mimeType.
           Inr \<lparr>VideoUploadResponse.JobID = ''job123'', Status = None\<rparr>),
      firstCheck = 0,
      jobStatusReply = (\<lambda>k. Response 200 (Object None None (Some processingStatus))),
      jobStatusTook = (\<lambda>k. 0),
      overslept = (\<lambda>k. 0),
      timeNow = ''2024-01-01T00:00:00Z'',
      publishPost = (\<lambda>post. None)\<rparr>"

text \<open>
  The same world, but the first status request takes 299 seconds to come back (the
  job still being processed), and from the second request on the status carries the
  blob.
\<close>

definition slowWorld :: world where
  "slowWorld =
     exampleWorld
       \<lparr>jobStatusReply :=
          (\<lambda>k. if k = 0 then Response 200 (Object None None (Some processingStatus))
                else Response 200 (Object None None (Some completedStatus))),
        jobStatusTook := (\<lambda>k. if k = 0 then 299 * 1000000000 else 0)\<rparr>"

text \<open>The same world, but the upload response already carries the blob.\<close>

definition cachedWorld :: world where
  "cachedWorld =
     exampleWorld
       \<lparr>uploadVideoToService :=
          (\<lambda>userDID serviceToken videoData filename mimeType.
             Inr \<lparr>VideoUploadResponse.JobID = ''job123'', Status = Some completedStatus\<rparr>)\<rparr>"

text \<open>The same world, but the text of the post holds one link.\<close>

definition exampleFacet :: RichTextFacet where
  "exampleFacet =
     \<lparr>Index = \<lparr>ByteStart = 4, ByteEnd = 23\<rparr>,
      Features = [\<lparr>RichTextFeature.Type = ''app.bsky.richtext.facet#link'',
                   URI = ''https://example.com''\<rparr>]\<rparr>"

definition linkWorld :: world where
  "linkWorld = exampleWorld \<lparr>parseRichTextFacets := (\<lambda>text. [exampleFacet])\<rparr>"

text \<open>Arguments with neither images nor a video, and variations of them.\<close>

definition exampleArgs :: ActionInputs where
  "exampleArgs =
     \<lparr>PDSURL = ''https://bsky.social'', Handle = ''alice.test'', Password = ''secret'',
      Text = ''See https://example.com'', Lang = [], LogLevel = ''info'', EnableEmbeds = True,
      ImagePaths = '''', ImageAltTexts = '''', VideoPath = '''', VideoAltText = ''''\<rparr>"

section \<open>Validation of sizes and formats\<close>

lemma validateImageData_cases:
  "validateImageData path imageData =
     (if length imageData > 1000000
      then Some (ImageSizeExceeded path 1000000 (length imageData))
      else if detectImageMimeType path = '''' then Some (UnsupportedImageFormat path)
      else None)"
  by (simp add: validateImageData_def maxImageSize_def)

lemma validateVideoData_cases:
  "validateVideoData path videoData =
     (if length videoData > 52428800
      then Some (VideoSizeExceeded path 52428800 (length videoData))
      else if detectVideoMimeType path = '''' then Some (UnsupportedVideoFormat path)
      else None)"
  by (simp add: validateVideoData_def maxVideoSize_def)

text \<open>
  C4. An image of at most 1,000,000 bytes with a detected format is accepted; one of
  more than 1,000,000 bytes (1,000,001 is the first) is rejected with the size error,
  whatever its path is; a video is accepted up to 50 * 1,048,576 bytes. The size is
  checked first: an oversized file with an unknown extension reports the size error, and
  a file within the limit with an unknown extension reports the unsupported format.
\<close>

theorem validate_size_before_format:
  "(length imageData \<le> 1000000 \<and> detectImageMimeType path \<noteq> ''''
      \<longrightarrow> validateImageData path imageData = None)
   \<and> (length imageData = 1000001
      \<longrightarrow> validateImageData path imageData = Some (ImageSizeExceeded path 1000000 1000001))
   \<and> (length imageData > 1000000
      \<longrightarrow> validateImageData path imageData
            = Some (ImageSizeExceeded path 1000000 (length imageData)))
   \<and> (length imageData \<le> 1000000 \<and> detectImageMimeType path = ''''
      \<longrightarrow> validateImageData path imageData = Some (UnsupportedImageFormat path))
   \<and> (length videoData \<le> 50 * 1048576 \<and> detectVideoMimeType vpath \<noteq> ''''
      \<longrightarrow> validateVideoData vpath videoData = None)
   \<and> (length videoData > 50 * 1048576
      \<longrightarrow> validateVideoData vpath videoData
            = Some (VideoSizeExceeded vpath (50 * 1048576) (length videoData)))
   \<and> (length videoData \<le> 50 * 1048576 \<and> detectVideoMimeType vpath = ''''
      \<longrightarrow> validateVideoData vpath videoData = Some (UnsupportedVideoFormat vpath))"
  by (simp add: validateImageData_cases validateVideoData_cases)

theorem validate_size_before_format_witness:
  "validateImageData ''test.jpg'' (replicate 1000000 0) = None
   \<and> validateImageData ''large.png'' (replicate 1000001 0)
       = Some (ImageSizeExceeded ''large.png'' 1000000 1000001)
   \<and> validateImageData ''large.pdf'' (replicate 1000001 0)
       = Some (ImageSizeExceeded ''large.pdf'' 1000000 1000001)
   \<and> validateImageData ''document.pdf'' (replicate 1000 0)
       = Some (UnsupportedImageFormat ''document.pdf'')
   \<and> validateVideoData ''video.mp4'' (replicate 52428800 0) = None
   \<and> validateVideoData ''large.avi'' (replicate 52428801 0)
       = Some (VideoSizeExceeded ''large.avi'' 52428800 52428801)
   \<and> validateVideoData ''video.avi'' (replicate 1024 0)
       = Some (UnsupportedVideoFormat ''video.avi'')"
proof -
  have jpg: "detectImageMimeType ''test.jpg'' \<noteq> ''''"
    by code_simp
  have pdf: "detectImageMimeType ''document.pdf'' = ''''"
    by code_simp
  have mp4: "detectVideoMimeType ''video.mp4'' \<noteq> ''''"
    by code_simp
  have avi: "detectVideoMimeType ''video.avi'' = ''''"
    by code_simp
  note rule = validate_size_before_format
  from rule [of "replicate 1000000 0" "''test.jpg''"] jpg
  have 1: "validateImageData ''test.jpg'' (replicate 1000000 0) = None"
    by simp
  from rule [of "replicate 1000001 0" "''large.png''"]
  have 2: "validateImageData ''large.png'' (replicate 1000001 0)
             = Some (ImageSizeExceeded ''large.png'' 1000000 1000001)"
    by simp
  from rule [of "replicate 1000001 0" "''large.pdf''"]
  have 3: "validateImageData ''large.pdf'' (replicate 1000001 0)
             = Some (ImageSizeExceeded ''large.pdf'' 1000000 1000001)"
    by simp
  from rule [of "replicate 1000 0" "''document.pdf''"] pdf
  have 4: "validateImageData ''document.pdf'' (replicate 1000 0)
             = Some (UnsupportedImageFormat ''document.pdf'')"
    by simp
  from rule [of _ _ "replicate 52428800 0" "''video.mp4''"] mp4
  have 5: "validateVideoData ''video.mp4'' (replicate 52428800 0) = None"
    by simp
  from rule [of _ _ "replicate 52428801 0" "''large.avi''"]
  have 6: "validateVideoData ''large.avi'' (replicate 52428801 0)
             = Some (VideoSizeExceeded ''large.avi'' 52428800 52428801)"
    by simp
  from rule [of _ _ "replicate 1024 0" "''video.avi''"] avi
  have 7: "validateVideoData ''video.avi'' (replicate 1024 0)
             = Some (UnsupportedVideoFormat ''video.avi'')"
    by simp
  from 1 2 3 4 5 6 7 show ?thesis
    by blast
qed

section \<open>Alternative texts of images\<close>

lemma Itoa_nonempty: "Itoa n \<noteq> []"
  by (subst Itoa.simps) simp

lemma resolveAltText_nonempty: "resolveAltText i alts \<noteq> ''''"
  by (simp add: resolveAltText_def)

text \<open>
  C9. The alternative text of image \<open>i\<close>: a value at index \<open>i\<close> that is not blank is
  used, trimmed; else, when exactly one value was supplied and it is not blank, that
  value is used, trimmed, for every image; else the text is \<^verbatim>\<open>Image\<close> followed by
  \<open>i + 1\<close>. The six examples evaluate as listed.
\<close>

theorem resolveAltText_policy:
  "(\<forall>i alts. i < length alts \<and> TrimSpace (alts ! i) \<noteq> ''''
       \<longrightarrow> resolveAltText i alts = TrimSpace (alts ! i))
   \<and> (\<forall>i alt. TrimSpace alt \<noteq> '''' \<longrightarrow> resolveAltText i [alt] = TrimSpace alt)
   \<and> (\<forall>i alts. \<not> (i < length alts \<and> TrimSpace (alts ! i) \<noteq> '''')
         \<and> \<not> (length alts = 1 \<and> TrimSpace (alts ! 0) \<noteq> '''')
       \<longrightarrow> resolveAltText i alts = ''Image '' @ Itoa (i + 1))
   \<and> resolveAltText 0 [''First'', ''Second''] = ''First''
   \<and> resolveAltText 1 [''First'', ''Second''] = ''Second''
   \<and> resolveAltText 2 [''Same alt for all''] = ''Same alt for all''
   \<and> resolveAltText 0 [] = ''Image 1''
   \<and> resolveAltText 1 [''   ''] = ''Image 2''
   \<and> resolveAltText 3 [''First'', ''Second''] = ''Image 4''"
proof -
  have general:
    "(\<forall>i alts. i < length alts \<and> TrimSpace (alts ! i) \<noteq> ''''
         \<longrightarrow> resolveAltText i alts = TrimSpace (alts ! i))
     \<and> (\<forall>i alt. TrimSpace alt \<noteq> '''' \<longrightarrow> resolveAltText i [alt] = TrimSpace alt)
     \<and> (\<forall>i alts. \<not> (i < length alts \<and> TrimSpace (alts ! i) \<noteq> '''')
           \<and> \<not> (length alts = 1 \<and> TrimSpace (alts ! 0) \<noteq> '''')
         \<longrightarrow> resolveAltText i alts = ''Image '' @ Itoa (i + 1))"
    by (auto simp: resolveAltText_def)
  have e1: "resolveAltText 0 [''First'', ''Second''] = ''First''"
    by code_simp
  have e2: "resolveAltText 1 [''First'', ''Second''] = ''Second''"
    by code_simp
  have e3: "resolveAltText 2 [''Same alt for all''] = ''Same alt for all''"
    by code_simp
  have e4: "resolveAltText 0 [] = ''Image 1''"
    by code_simp
  have e5: "resolveAltText 1 [''   ''] = ''Image 2''"
    by code_simp
  have e6: "resolveAltText 3 [''First'', ''Second''] = ''Image 4''"
    by code_simp
  from general e1 e2 e3 e4 e5 e6 show ?thesis
    by blast
qed

theorem resolveAltText_policy_witness:
  "resolveAltText 1 ['' First image '', ''Second image ''] = ''Second image''
   \<and> resolveAltText 3 ['' Same alt for all''] = ''Same alt for all''
   \<and> resolveAltText 2 [''First'', ''  ''] = ''Image 3''"
proof -
  note policy = resolveAltText_policy
  have t1: "TrimSpace ''Second image '' = ''Second image''"
    by code_simp
  have t2: "TrimSpace '' Same alt for all'' = ''Same alt for all''"
    by code_simp
  have t3: "TrimSpace ''  '' = ''''"
    by code_simp
  have n3: "Itoa (2 + 1) = ''3''"
    by code_simp
  from policy have
    "1 < length ['' First image '', ''Second image '']
       \<and> TrimSpace (['' First image '', ''Second image ''] ! 1) \<noteq> ''''
     \<longrightarrow> resolveAltText 1 ['' First image '', ''Second image '']
          = TrimSpace (['' First image '', ''Second image ''] ! 1)"
    by blast
  with t1 have 1: "resolveAltText 1 ['' First image '', ''Second image ''] = ''Second image''"
    by simp
  from policy have
    "TrimSpace '' Same alt for all'' \<noteq> ''''
     \<longrightarrow> resolveAltText 3 ['' Same alt for all''] = TrimSpace '' Same alt for all''"
    by blast
  with t2 have 2: "resolveAltText 3 ['' Same alt for all''] = ''Same alt for all''"
    by simp
  from policy have
    "\<not> (2 < length [''First'', ''  ''] \<and> TrimSpace ([''First'', ''  ''] ! 2) \<noteq> '''')
       \<and> \<not> (length [''First'', ''  ''] = 1 \<and> TrimSpace ([''First'', ''  ''] ! 0) \<noteq> '''')
     \<longrightarrow> resolveAltText 2 [''First'', ''  ''] = ''Image '' @ Itoa (2 + 1)"
    by blast
  with n3 have 3: "resolveAltText 2 [''First'', ''  ''] = ''Image 3''"
    by simp
  from 1 2 3 show ?thesis
    by blast
qed

section \<open>The polling loop\<close>

lemma pollLoop_deadline:
  "elapsed > videoStatusMaxWait
     \<Longrightarrow> pollLoop w serviceToken jobID k elapsed tr = (Inl ProcessingTimedOut, tr)"
  by (subst pollLoop.simps) simp

lemma pollLoop_request_failed:
  "\<lbrakk>elapsed \<le> videoStatusMaxWait; getVideoJobStatus (jobStatusReply w k) = Inl err\<rbrakk>
     \<Longrightarrow> pollLoop w serviceToken jobID k elapsed tr
         = (Inl err, tr @ [GetJobStatus serviceToken jobID])"
  by (subst pollLoop.simps) simp

lemma pollLoop_blob:
  "\<lbrakk>elapsed \<le> videoStatusMaxWait; getVideoJobStatus (jobStatusReply w k) = Inr status;
    VideoJobStatus.Blob status = Some blob\<rbrakk>
     \<Longrightarrow> pollLoop w serviceToken jobID k elapsed tr
         = (Inr blob, tr @ [GetJobStatus serviceToken jobID])"
  by (subst pollLoop.simps) simp

lemma pollLoop_job_failed:
  "\<lbrakk>elapsed \<le> videoStatusMaxWait; getVideoJobStatus (jobStatusReply w k) = Inr status;
    VideoJobStatus.Blob status = None;
    State status = ''failed'' \<or> VideoJobStatus.Error status \<noteq> ''''\<rbrakk>
     \<Longrightarrow> pollLoop w serviceToken jobID k elapsed tr
         = (Inl (ProcessingFailed (VideoJobStatus.Error status)),
            tr @ [GetJobStatus serviceToken jobID])"
  by (subst pollLoop.simps) auto

lemma pollLoop_again:
  "\<lbrakk>elapsed \<le> videoStatusMaxWait; getVideoJobStatus (jobStatusReply w k) = Inr status;
    VideoJobStatus.Blob status = None; State status \<noteq> ''failed'';
    VideoJobStatus.Error status = ''''\<rbrakk>
     \<Longrightarrow> pollLoop w serviceToken jobID k elapsed tr
         = pollLoop w serviceToken jobID (k + 1)
             (elapsed + jobStatusTook w k + videoStatusPollDelay + overslept w k)
             (tr @ [GetJobStatus serviceToken jobID, Sleep videoStatusPollDelay])"
  by (subst pollLoop.simps) simp

lemma getVideoJobStatus_already_exists:
  "\<lbrakk>statusCode \<noteq> 200; unmarshalErrorResp b = Inr errorResp;
    errorResp.Error errorResp = ''already_exists''; errorResp.Status errorResp = Some status;
    VideoJobStatus.Blob status = Some blob\<rbrakk>
     \<Longrightarrow> getVideoJobStatus (Response statusCode b) = Inr status"
  by simp

lemma getVideoJobStatus_other_failure:
  "\<lbrakk>statusCode \<noteq> 200;
    \<not> (\<exists>errorResp status blob. unmarshalErrorResp b = Inr errorResp
          \<and> errorResp.Error errorResp = ''already_exists''
          \<and> errorResp.Status errorResp = Some status
          \<and> VideoJobStatus.Blob status = Some blob)\<rbrakk>
     \<Longrightarrow> getVideoJobStatus (Response statusCode b) = Inl (JobStatusCode statusCode)"
  by (auto split: sum.splits option.splits)

text \<open>
  C8. A response to the job-status request whose status code is not 200 and whose body
  decodes to the error \<^verbatim>\<open>already_exists\<close> with a job status that carries a blob makes
  \<^verbatim>\<open>getVideoJobStatus\<close> return that status, and the loop that called it within the
  deadline returns the blob of it; every other response whose status code is not 200
  gives the error whose message names the status code.
\<close>

theorem getVideoJobStatus_non_200:
  assumes "statusCode \<noteq> 200"
  shows "(unmarshalErrorResp b = Inr errorResp
            \<and> errorResp.Error errorResp = ''already_exists''
            \<and> errorResp.Status errorResp = Some status
            \<and> VideoJobStatus.Blob status = Some blob
          \<longrightarrow> getVideoJobStatus (Response statusCode b) = Inr status
              \<and> (\<forall>w serviceToken jobID k elapsed tr.
                    jobStatusReply w k = Response statusCode b \<and> elapsed \<le> videoStatusMaxWait
                    \<longrightarrow> pollLoop w serviceToken jobID k elapsed tr
                        = (Inr blob, tr @ [GetJobStatus serviceToken jobID])))
         \<and> (\<not> (\<exists>errorResp status blob. unmarshalErrorResp b = Inr errorResp
                  \<and> errorResp.Error errorResp = ''already_exists''
                  \<and> errorResp.Status errorResp = Some status
                  \<and> VideoJobStatus.Blob status = Some blob)
          \<longrightarrow> getVideoJobStatus (Response statusCode b) = Inl (JobStatusCode statusCode)
              \<and> errorString (JobStatusCode statusCode)
                  = ''failed to get job status, status code: '' @ Itoa statusCode)"
proof (intro conjI impI allI)
  assume h: "unmarshalErrorResp b = Inr errorResp
               \<and> errorResp.Error errorResp = ''already_exists''
               \<and> errorResp.Status errorResp = Some status
               \<and> VideoJobStatus.Blob status = Some blob"
  with assms show got: "getVideoJobStatus (Response statusCode b) = Inr status"
    by (intro getVideoJobStatus_already_exists) auto
  fix w :: world and serviceToken jobID k elapsed tr
  assume "jobStatusReply w k = Response statusCode b \<and> elapsed \<le> videoStatusMaxWait"
  with got h show "pollLoop w serviceToken jobID k elapsed tr
                     = (Inr blob, tr @ [GetJobStatus serviceToken jobID])"
    by (intro pollLoop_blob [where status = status]) auto
next
  assume "\<not> (\<exists>errorResp status blob. unmarshalErrorResp b = Inr errorResp
                  \<and> errorResp.Error errorResp = ''already_exists''
                  \<and> errorResp.Status errorResp = Some status
                  \<and> VideoJobStatus.Blob status = Some blob)"
  with assms show "getVideoJobStatus (Response statusCode b) = Inl (JobStatusCode statusCode)"
    by (rule getVideoJobStatus_other_failure)
next
  show "errorString (JobStatusCode statusCode)
          = ''failed to get job status, status code: '' @ Itoa statusCode"
    by simp
qed

theorem getVideoJobStatus_non_200_witness:
  "getVideoJobStatus
     (Response 409 (Object (Some ''already_exists'') (Some ''Video already processed'')
                      (Some completedStatus)))
     = Inr completedStatus
   \<and> pollLoop
       (exampleWorld
          \<lparr>jobStatusReply :=
             (\<lambda>k. Response 409 (Object (Some ''already_exists'')
                                   (Some ''Video already processed'') (Some completedStatus)))\<rparr>)
       ''service-token'' ''job123'' 0 0 []
     = (Inr exampleBlob, [GetJobStatus ''service-token'' ''job123''])
   \<and> getVideoJobStatus (Response 500 (Malformed ''unexpected end of JSON input''))
     = Inl (JobStatusCode 500)
   \<and> errorString (JobStatusCode 500) = ''failed to get job status, status code: 500''"
proof -
  let ?b = "Object (Some ''already_exists'') (Some ''Video already processed'')
              (Some completedStatus)"
  let ?r = "\<lparr>errorResp.Error = ''already_exists'', Message = ''Video already processed'',
              Status = Some completedStatus\<rparr>"
  let ?w = "exampleWorld \<lparr>jobStatusReply := (\<lambda>k. Response 409 ?b)\<rparr>"
  have code: "(409::nat) \<noteq> 200" "(500::nat) \<noteq> 200"
    by simp_all
  have decoded: "unmarshalErrorResp ?b = Inr ?r
                   \<and> errorResp.Error ?r = ''already_exists''
                   \<and> errorResp.Status ?r = Some completedStatus
                   \<and> VideoJobStatus.Blob completedStatus = Some exampleBlob"
    by (simp add: unmarshalErrorResp_def completedStatus_def)
  have undecoded:
    "\<not> (\<exists>errorResp status blob.
           unmarshalErrorResp (Malformed ''unexpected end of JSON input'') = Inr errorResp
           \<and> errorResp.Error errorResp = ''already_exists''
           \<and> errorResp.Status errorResp = Some status
           \<and> VideoJobStatus.Blob status = Some blob)"
    by (simp add: unmarshalErrorResp_def)
  have within: "jobStatusReply ?w 0 = Response 409 ?b \<and> (0::nat) \<le> videoStatusMaxWait"
    by simp
  have digits: "Itoa 500 = ''500''"
    by (simp add: Itoa.simps digitChar_def)
  from getVideoJobStatus_non_200 [OF code(1), of ?b ?r completedStatus exampleBlob] decoded
  have 1: "getVideoJobStatus (Response 409 ?b) = Inr completedStatus"
    and 2: "\<forall>w serviceToken jobID k elapsed tr.
              jobStatusReply w k = Response 409 ?b \<and> elapsed \<le> videoStatusMaxWait
              \<longrightarrow> pollLoop w serviceToken jobID k elapsed tr
                  = (Inr exampleBlob, tr @ [GetJobStatus serviceToken jobID])"
    by blast+
  from 2 within have 3: "pollLoop ?w ''service-token'' ''job123'' 0 0 []
                           = (Inr exampleBlob, [] @ [GetJobStatus ''service-token'' ''job123''])"
    by blast
  from getVideoJobStatus_non_200 [OF code(2), of "Malformed ''unexpected end of JSON input''"]
    undecoded
  have 4: "getVideoJobStatus (Response 500 (Malformed ''unexpected end of JSON input''))
             = Inl (JobStatusCode 500)"
    and 5: "errorString (JobStatusCode 500)
              = ''failed to get job status, status code: '' @ Itoa 500"
    by blast+
  from 1 3 4 5 digits show ?thesis
    by simp
qed

lemma elapsedAt_lower: "n * videoStatusPollDelay \<le> elapsedAt w n"
  by (induction n) auto

lemma pollRounds_Suc:
  "tr @ [GetJobStatus serviceToken jobID, Sleep videoStatusPollDelay]
      @ pollRounds serviceToken jobID n
   = tr @ pollRounds serviceToken jobID (Suc n)"
  by (simp add: pollRounds_def)

lemma pollLoop_pending:
  assumes "\<forall>k. \<exists>status. getVideoJobStatus (jobStatusReply w k) = Inr status \<and> pending status"
    and "elapsed = elapsedAt w k"
  shows "\<exists>n\<ge>k. videoStatusMaxWait < elapsedAt w n
           \<and> (\<forall>m. k \<le> m \<and> m < n \<longrightarrow> elapsedAt w m \<le> videoStatusMaxWait)
           \<and> pollLoop w serviceToken jobID k elapsed tr
               = (Inl ProcessingTimedOut, tr @ pollRounds serviceToken jobID (n - k))"
  using assms
proof (induction w serviceToken jobID k elapsed tr rule: pollLoop.induct)
  case (1 w serviceToken jobID k elapsed tr)
  show ?case
  proof (cases "videoStatusMaxWait < elapsed")
    case True
    with "1.prems" have "videoStatusMaxWait < elapsedAt w k"
      and "pollLoop w serviceToken jobID k elapsed tr
             = (Inl ProcessingTimedOut, tr @ pollRounds serviceToken jobID (k - k))"
      by (simp_all add: pollLoop_deadline pollRounds_def)
    then show ?thesis
      by (intro exI [of _ k]) auto
  next
    case False
    from "1.prems" obtain status
      where status: "getVideoJobStatus (jobStatusReply w k) = Inr status" "pending status"
      by blast
    then have parts: "VideoJobStatus.Blob status = None"
      "\<not> (State status = ''failed'' \<or> VideoJobStatus.Error status \<noteq> '''')"
      by (auto simp: pending_def)
    let ?next = "elapsed + jobStatusTook w k + videoStatusPollDelay + overslept w k"
    let ?tr = "tr @ [GetJobStatus serviceToken jobID, Sleep videoStatusPollDelay]"
    from "1.prems" have next_reading: "?next = elapsedAt w (k + 1)"
      by simp
    from "1.IH" [OF False status(1) parts "1.prems"(1) next_reading]
    obtain n where n: "k + 1 \<le> n" "videoStatusMaxWait < elapsedAt w n"
      "\<forall>m. k + 1 \<le> m \<and> m < n \<longrightarrow> elapsedAt w m \<le> videoStatusMaxWait"
      "pollLoop w serviceToken jobID (k + 1) ?next ?tr
         = (Inl ProcessingTimedOut, ?tr @ pollRounds serviceToken jobID (n - (k + 1)))"
      by blast
    from False status parts
    have "pollLoop w serviceToken jobID k elapsed tr
            = pollLoop w serviceToken jobID (k + 1) ?next ?tr"
      by (intro pollLoop_again) (auto simp: pending_def)
    also note n(4)
    also from n(1) have "?tr @ pollRounds serviceToken jobID (n - (k + 1))
                           = tr @ pollRounds serviceToken jobID (n - k)"
      using pollRounds_Suc [of tr serviceToken jobID "n - (k + 1)"]
      by (simp add: Suc_diff_Suc)
    finally have result: "pollLoop w serviceToken jobID k elapsed tr
                            = (Inl ProcessingTimedOut, tr @ pollRounds serviceToken jobID (n - k))" .
    have "\<forall>m. k \<le> m \<and> m < n \<longrightarrow> elapsedAt w m \<le> videoStatusMaxWait"
    proof (intro allI impI)
      fix m
      assume m: "k \<le> m \<and> m < n"
      show "elapsedAt w m \<le> videoStatusMaxWait"
      proof (cases "m = k")
        case True
        with False "1.prems"(2) show ?thesis
          by simp
      next
        case False
        with m n(3) show ?thesis
          by simp
      qed
    qed
    with n(1,2) result show ?thesis
      by (intro exI [of _ n]) auto
  qed
qed

lemma deadline_within_151:
  assumes "\<forall>m<n. elapsedAt w m \<le> videoStatusMaxWait"
  shows "n \<le> 151"
proof (rule ccontr)
  assume "\<not> n \<le> 151"
  then have "151 < n"
    by simp
  with assms have "elapsedAt w 151 \<le> videoStatusMaxWait"
    by blast
  moreover have "151 * videoStatusPollDelay \<le> elapsedAt w 151"
    by (rule elapsedAt_lower)
  ultimately show False
    by (simp add: videoStatusPollDelay_def videoStatusMaxWait_def)
qed

lemma timeout_message_differs:
  "errorString ProcessingTimedOut \<noteq> errorString (ProcessingFailed msg)"
  "errorString (VideoProcessingFailed ProcessingTimedOut)
     \<noteq> errorString (VideoProcessingFailed (ProcessingFailed msg))"
  by simp_all

lemma processVideo_polls:
  assumes "readFile w path = Inr videoData"
    and "validateVideoData path videoData = None"
    and "getServiceAuthToken w pdsURL accessToken userDID = Inr serviceToken"
    and "uploadVideoToService w userDID serviceToken videoData (Base path)
           (detectVideoMimeType path) = Inr uploadResp"
    and "Option.bind (VideoUploadResponse.Status uploadResp) VideoJobStatus.Blob = None"
    and "pollVideoJobUntilComplete w serviceToken (VideoUploadResponse.JobID uploadResp)
           (tr @ [ReadFile path, GetServiceAuth pdsURL,
                  UploadVideo (Base path) (detectVideoMimeType path) (length videoData)])
         = (Inl err, tr')"
  shows "processVideo w pdsURL accessToken userDID path altText tr
           = (Inl (VideoProcessingFailed err), tr')"
  using assms by (simp add: processVideo_def)

text \<open>
  C7. When every job-status request comes back with a status that carries no blob, is
  not in state \<^verbatim>\<open>failed\<close> and has an empty error field, the polling loop returns: it
  ends at the first deadline check that reads more than 5 minutes, which is at the
  latest the one after 151 requests, with the timeout error. The message of that error
  differs from the message of every processing failure, also after \<^verbatim>\<open>processVideo\<close>
  has wrapped both.
\<close>

theorem poll_pending_times_out:
  assumes "\<forall>k. \<exists>status. getVideoJobStatus (jobStatusReply w k) = Inr status \<and> pending status"
  shows "(\<exists>n\<le>151. videoStatusMaxWait < elapsedAt w n
            \<and> (\<forall>m<n. elapsedAt w m \<le> videoStatusMaxWait)
            \<and> pollVideoJobUntilComplete w serviceToken jobID tr
                = (Inl ProcessingTimedOut, tr @ pollRounds serviceToken jobID n))
         \<and> (readFile w path = Inr videoData \<and> validateVideoData path videoData = None
              \<and> getServiceAuthToken w pdsURL accessToken userDID = Inr serviceToken
              \<and> uploadVideoToService w userDID serviceToken videoData (Base path)
                   (detectVideoMimeType path) = Inr uploadResp
              \<and> Option.bind (VideoUploadResponse.Status uploadResp) VideoJobStatus.Blob = None
            \<longrightarrow> fst (processVideo w pdsURL accessToken userDID path altText tr)
                  = Inl (VideoProcessingFailed ProcessingTimedOut))
         \<and> errorString ProcessingTimedOut \<noteq> errorString (ProcessingFailed msg)
         \<and> errorString (VideoProcessingFailed ProcessingTimedOut)
              \<noteq> errorString (VideoProcessingFailed (ProcessingFailed msg))"
proof -
  have loop: "\<exists>n\<le>151. videoStatusMaxWait < elapsedAt w n
                \<and> (\<forall>m<n. elapsedAt w m \<le> videoStatusMaxWait)
                \<and> pollVideoJobUntilComplete w s j t
                    = (Inl ProcessingTimedOut, t @ pollRounds s j n)" for s j t
  proof -
    from pollLoop_pending [OF assms, of "firstCheck w" 0 s j t]
    obtain n where n: "videoStatusMaxWait < elapsedAt w n"
      "\<forall>m. 0 \<le> m \<and> m < n \<longrightarrow> elapsedAt w m \<le> videoStatusMaxWait"
      "pollLoop w s j 0 (firstCheck w) t = (Inl ProcessingTimedOut, t @ pollRounds s j (n - 0))"
      by auto
    from n(2) have before: "\<forall>m<n. elapsedAt w m \<le> videoStatusMaxWait"
      by simp
    then have "n \<le> 151"
      by (rule deadline_within_151)
    with n(1,3) before show ?thesis
      by (auto simp: pollVideoJobUntilComplete_def)
  qed
  have video: "fst (processVideo w pdsURL accessToken userDID path altText tr)
                 = Inl (VideoProcessingFailed ProcessingTimedOut)"
    if h: "readFile w path = Inr videoData \<and> validateVideoData path videoData = None
            \<and> getServiceAuthToken w pdsURL accessToken userDID = Inr serviceToken
            \<and> uploadVideoToService w userDID serviceToken videoData (Base path)
                 (detectVideoMimeType path) = Inr uploadResp
            \<and> Option.bind (VideoUploadResponse.Status uploadResp) VideoJobStatus.Blob = None"
  proof -
    from loop obtain tr' where
      "pollVideoJobUntilComplete w serviceToken (VideoUploadResponse.JobID uploadResp)
         (tr @ [ReadFile path, GetServiceAuth pdsURL,
                UploadVideo (Base path) (detectVideoMimeType path) (length videoData)])
       = (Inl ProcessingTimedOut, tr')"
      by blast
    with h have "processVideo w pdsURL accessToken userDID path altText tr
                   = (Inl (VideoProcessingFailed ProcessingTimedOut), tr')"
      by (intro processVideo_polls) auto
    then show ?thesis
      by simp
  qed
  from loop [of serviceToken jobID tr] video timeout_message_differs [of msg]
  show ?thesis
    by blast
qed

theorem poll_pending_times_out_witness:
  "(\<exists>n\<le>151.
      pollVideoJobUntilComplete exampleWorld ''service-token'' ''job123'' []
        = (Inl ProcessingTimedOut, pollRounds ''service-token'' ''job123'' n))
   \<and> fst (processVideo exampleWorld ''https://bsky.social'' ''jwt'' ''did:plc:test''
            ''clip.mp4'' ''Video'' [])
       = Inl (VideoProcessingFailed ProcessingTimedOut)"
proof -
  have pend: "\<forall>k. \<exists>status. getVideoJobStatus (jobStatusReply exampleWorld k) = Inr status
                \<and> pending status"
    by (simp add: exampleWorld_def unmarshalStatusResp_def pending_def processingStatus_def)
  have mime: "detectVideoMimeType ''clip.mp4'' = ''video/mp4''"
    by code_simp
  have base: "Base ''clip.mp4'' = ''clip.mp4''"
    by code_simp
  have valid: "validateVideoData ''clip.mp4'' (replicate 1024 0) = None"
    by (simp add: validateVideoData_def maxVideoSize_def mime)
  let ?resp = "\<lparr>VideoUploadResponse.JobID = ''job123'', Status = None\<rparr>"
  have steps: "readFile exampleWorld ''clip.mp4'' = Inr (replicate 1024 0)
      \<and> validateVideoData ''clip.mp4'' (replicate 1024 0) = None
      \<and> getServiceAuthToken exampleWorld ''https://bsky.social'' ''jwt'' ''did:plc:test''
           = Inr ''service-token''
      \<and> uploadVideoToService exampleWorld ''did:plc:test'' ''service-token'' (replicate 1024 0)
           (Base ''clip.mp4'') (detectVideoMimeType ''clip.mp4'') = Inr ?resp
      \<and> Option.bind (VideoUploadResponse.Status ?resp) VideoJobStatus.Blob = None"
    by (simp add: exampleWorld_def valid)
  note inst = poll_pending_times_out [OF pend, of "''service-token''" "''job123''" "[]"
      "''clip.mp4''" "replicate 1024 0" "''https://bsky.social''" "''jwt''" "''did:plc:test''"
      ?resp "''Video''" "''''"]
  from inst have "\<exists>n\<le>151.
      pollVideoJobUntilComplete exampleWorld ''service-token'' ''job123'' []
        = (Inl ProcessingTimedOut, [] @ pollRounds ''service-token'' ''job123'' n)"
    by blast
  moreover from inst steps
  have "fst (processVideo exampleWorld ''https://bsky.social'' ''jwt'' ''did:plc:test''
               ''clip.mp4'' ''Video'' [])
          = Inl (VideoProcessingFailed ProcessingTimedOut)"
    by blast
  ultimately show ?thesis
    by simp
qed

text \<open>
  C1, as the claim states it, fails: in \<open>slowWorld\<close> the second status response would
  carry the blob, but the deadline check at the top of the second iteration reads 301
  seconds, and the loop returns the timeout error without making the request.
\<close>

theorem blob_after_deadline_counterexample:
  "getVideoJobStatus (jobStatusReply slowWorld 1) = Inr completedStatus
   \<and> VideoJobStatus.Blob completedStatus = Some exampleBlob
   \<and> elapsedAt slowWorld 1 = 301 * 1000000000
   \<and> pollVideoJobUntilComplete slowWorld ''service-token'' ''job123'' []
       = (Inl ProcessingTimedOut,
          [GetJobStatus ''service-token'' ''job123'', Sleep videoStatusPollDelay])"
proof -
  let ?tr = "[GetJobStatus ''service-token'' ''job123'', Sleep videoStatusPollDelay]"
  have first: "getVideoJobStatus (jobStatusReply slowWorld 0) = Inr processingStatus"
    by (simp add: slowWorld_def unmarshalStatusResp_def)
  have second: "getVideoJobStatus (jobStatusReply slowWorld 1) = Inr completedStatus"
    by (simp add: slowWorld_def unmarshalStatusResp_def)
  have blob: "VideoJobStatus.Blob completedStatus = Some exampleBlob"
    by (simp add: completedStatus_def)
  have reading: "elapsedAt slowWorld 1 = 301 * 1000000000"
    by (simp add: slowWorld_def exampleWorld_def videoStatusPollDelay_def)
  have "pollLoop slowWorld ''service-token'' ''job123'' 0 0 []
          = pollLoop slowWorld ''service-token'' ''job123'' (0 + 1)
              (0 + jobStatusTook slowWorld 0 + videoStatusPollDelay + overslept slowWorld 0)
              ([] @ ?tr)"
    using first by (intro pollLoop_again [where status = processingStatus])
      (simp_all add: processingStatus_def)
  also have "\<dots> = pollLoop slowWorld ''service-token'' ''job123'' 1 (301 * 1000000000) ?tr"
    by (simp add: slowWorld_def exampleWorld_def videoStatusPollDelay_def)
  also have "\<dots> = (Inl ProcessingTimedOut, ?tr)"
    by (intro pollLoop_deadline) (simp add: videoStatusMaxWait_def)
  finally have "pollVideoJobUntilComplete slowWorld ''service-token'' ''job123'' []
                  = (Inl ProcessingTimedOut, ?tr)"
    by (simp add: pollVideoJobUntilComplete_def slowWorld_def exampleWorld_def)
  with second blob reading show ?thesis
    by blast
qed

text \<open>
  C1, amended. Each iteration of the polling loop ends in exactly one of six ways,
  tried in this order. The deadline comes first: when more than 5 minutes have elapsed
  the loop returns the timeout error and makes no request. Otherwise it makes the
  request; a request that fails (a response other than 200 without the
  \<^verbatim>\<open>already_exists\<close> payload included) ends the loop with that error. A status that
  carries a blob, from a response 200 or from the \<^verbatim>\<open>already_exists\<close> payload of another
  response, ends it with the blob, whatever the state and the error field are. Else
  the state \<^verbatim>\<open>failed\<close> or an error field that is not empty ends it with the processing
  failure. Else the loop sleeps for the poll delay and starts the next iteration.
\<close>

theorem pollLoop_exit_order:
  "(videoStatusMaxWait < elapsed
      \<longrightarrow> pollLoop w serviceToken jobID k elapsed tr = (Inl ProcessingTimedOut, tr))
   \<and> (elapsed \<le> videoStatusMaxWait \<and> getVideoJobStatus (jobStatusReply w k) = Inl err
      \<longrightarrow> pollLoop w serviceToken jobID k elapsed tr
          = (Inl err, tr @ [GetJobStatus serviceToken jobID]))
   \<and> (elapsed \<le> videoStatusMaxWait \<and> getVideoJobStatus (jobStatusReply w k) = Inr status
        \<and> VideoJobStatus.Blob status = Some blob
      \<longrightarrow> pollLoop w serviceToken jobID k elapsed tr
          = (Inr blob, tr @ [GetJobStatus serviceToken jobID]))
   \<and> (elapsed \<le> videoStatusMaxWait \<and> statusCode \<noteq> 200
        \<and> jobStatusReply w k
            = Response statusCode (Object (Some ''already_exists'') message (Some status))
        \<and> VideoJobStatus.Blob status = Some blob
      \<longrightarrow> pollLoop w serviceToken jobID k elapsed tr
          = (Inr blob, tr @ [GetJobStatus serviceToken jobID]))
   \<and> (elapsed \<le> videoStatusMaxWait \<and> getVideoJobStatus (jobStatusReply w k) = Inr status
        \<and> VideoJobStatus.Blob status = None
        \<and> (State status = ''failed'' \<or> VideoJobStatus.Error status \<noteq> '''')
      \<longrightarrow> pollLoop w serviceToken jobID k elapsed tr
          = (Inl (ProcessingFailed (VideoJobStatus.Error status)),
             tr @ [GetJobStatus serviceToken jobID]))
   \<and> (elapsed \<le> videoStatusMaxWait \<and> getVideoJobStatus (jobStatusReply w k) = Inr status
        \<and> pending status
      \<longrightarrow> pollLoop w serviceToken jobID k elapsed tr
          = pollLoop w serviceToken jobID (k + 1)
              (elapsed + jobStatusTook w k + videoStatusPollDelay + overslept w k)
              (tr @ [GetJobStatus serviceToken jobID, Sleep videoStatusPollDelay]))"
proof (intro conjI impI)
  assume "videoStatusMaxWait < elapsed"
  then show "pollLoop w serviceToken jobID k elapsed tr = (Inl ProcessingTimedOut, tr)"
    by (rule pollLoop_deadline)
next
  assume "elapsed \<le> videoStatusMaxWait \<and> getVideoJobStatus (jobStatusReply w k) = Inl err"
  then show "pollLoop w serviceToken jobID k elapsed tr
               = (Inl err, tr @ [GetJobStatus serviceToken jobID])"
    by (intro pollLoop_request_failed) auto
next
  assume "elapsed \<le> videoStatusMaxWait \<and> getVideoJobStatus (jobStatusReply w k) = Inr status
            \<and> VideoJobStatus.Blob status = Some blob"
  then show "pollLoop w serviceToken jobID k elapsed tr
               = (Inr blob, tr @ [GetJobStatus serviceToken jobID])"
    by (intro pollLoop_blob [where status = status]) auto
next
  assume h: "elapsed \<le> videoStatusMaxWait \<and> statusCode \<noteq> 200
               \<and> jobStatusReply w k
                   = Response statusCode (Object (Some ''already_exists'') message (Some status))
               \<and> VideoJobStatus.Blob status = Some blob"
  then have "getVideoJobStatus (jobStatusReply w k) = Inr status"
    by (simp add: unmarshalErrorResp_def)
  with h show "pollLoop w serviceToken jobID k elapsed tr
                 = (Inr blob, tr @ [GetJobStatus serviceToken jobID])"
    by (intro pollLoop_blob [where status = status]) auto
next
  assume "elapsed \<le> videoStatusMaxWait \<and> getVideoJobStatus (jobStatusReply w k) = Inr status
            \<and> VideoJobStatus.Blob status = None
            \<and> (State status = ''failed'' \<or> VideoJobStatus.Error status \<noteq> '''')"
  then show "pollLoop w serviceToken jobID k elapsed tr
               = (Inl (ProcessingFailed (VideoJobStatus.Error status)),
                  tr @ [GetJobStatus serviceToken jobID])"
    by (intro pollLoop_job_failed) auto
next
  assume "elapsed \<le> videoStatusMaxWait \<and> getVideoJobStatus (jobStatusReply w k) = Inr status
            \<and> pending status"
  then show "pollLoop w serviceToken jobID k elapsed tr
               = pollLoop w serviceToken jobID (k + 1)
                   (elapsed + jobStatusTook w k + videoStatusPollDelay + overslept w k)
                   (tr @ [GetJobStatus serviceToken jobID, Sleep videoStatusPollDelay])"
    by (intro pollLoop_again [where status = status]) (auto simp: pending_def)
qed

theorem pollLoop_exit_order_witness:
  "pollLoop slowWorld ''service-token'' ''job123'' 1 (301 * 1000000000) []
     = (Inl ProcessingTimedOut, [])
   \<and> pollLoop (exampleWorld \<lparr>jobStatusReply := (\<lambda>k. NoResponse (Foreign ''connection refused''))\<rparr>)
        ''service-token'' ''job123'' 0 0 []
     = (Inl (Foreign ''connection refused''), [GetJobStatus ''service-token'' ''job123''])
   \<and> pollLoop
        (exampleWorld
           \<lparr>jobStatusReply :=
              (\<lambda>k. Response 200
                     (Object None None (Some (completedStatus \<lparr>State := ''failed''\<rparr>))))\<rparr>)
        ''service-token'' ''job123'' 0 0 []
     = (Inr exampleBlob, [GetJobStatus ''service-token'' ''job123''])
   \<and> pollLoop
        (exampleWorld
           \<lparr>jobStatusReply :=
              (\<lambda>k. Response 409 (Object (Some ''already_exists'') None (Some completedStatus)))\<rparr>)
        ''service-token'' ''job123'' 0 0 []
     = (Inr exampleBlob, [GetJobStatus ''service-token'' ''job123''])
   \<and> pollLoop
        (exampleWorld
           \<lparr>jobStatusReply :=
              (\<lambda>k. Response 200
                     (Object None None
                        (Some (processingStatus \<lparr>VideoJobStatus.Error := ''bad codec''\<rparr>))))\<rparr>)
        ''service-token'' ''job123'' 0 0 []
     = (Inl (ProcessingFailed ''bad codec''), [GetJobStatus ''service-token'' ''job123''])
   \<and> pollLoop exampleWorld ''service-token'' ''job123'' 0 0 []
     = pollLoop exampleWorld ''service-token'' ''job123'' 1 (2 * 1000000000)
         [GetJobStatus ''service-token'' ''job123'', Sleep videoStatusPollDelay]"
proof -
  let ?refused = "exampleWorld \<lparr>jobStatusReply := (\<lambda>k. NoResponse (Foreign ''connection refused''))\<rparr>"
  let ?both = "completedStatus \<lparr>State := ''failed''\<rparr>"
  let ?ready = "exampleWorld \<lparr>jobStatusReply := (\<lambda>k. Response 200 (Object None None (Some ?both)))\<rparr>"
  let ?dup = "exampleWorld
     \<lparr>jobStatusReply :=
        (\<lambda>k. Response 409 (Object (Some ''already_exists'') None (Some completedStatus)))\<rparr>"
  let ?bad = "processingStatus \<lparr>VideoJobStatus.Error := ''bad codec''\<rparr>"
  let ?failed = "exampleWorld \<lparr>jobStatusReply := (\<lambda>k. Response 200 (Object None None (Some ?bad)))\<rparr>"
  have late: "videoStatusMaxWait < 301 * 1000000000"
    by (simp add: videoStatusMaxWait_def)
  have early: "(0::nat) \<le> videoStatusMaxWait"
    by simp
  have refused: "getVideoJobStatus (jobStatusReply ?refused 0) = Inl (Foreign ''connection refused'')"
    by simp
  have both: "getVideoJobStatus (jobStatusReply ?ready 0) = Inr ?both
                \<and> VideoJobStatus.Blob ?both = Some exampleBlob"
    by (simp add: unmarshalStatusResp_def completedStatus_def)
  have dup: "(409::nat) \<noteq> 200
      \<and> jobStatusReply ?dup 0
          = Response 409 (Object (Some ''already_exists'') None (Some completedStatus))
      \<and> VideoJobStatus.Blob completedStatus = Some exampleBlob"
    by (simp add: completedStatus_def)
  have bad: "getVideoJobStatus (jobStatusReply ?failed 0) = Inr ?bad
      \<and> VideoJobStatus.Blob ?bad = None
      \<and> (State ?bad = ''failed'' \<or> VideoJobStatus.Error ?bad \<noteq> '''')"
    by (simp add: unmarshalStatusResp_def processingStatus_def)
  have going: "getVideoJobStatus (jobStatusReply exampleWorld 0) = Inr processingStatus
      \<and> pending processingStatus"
    by (simp add: exampleWorld_def unmarshalStatusResp_def pending_def processingStatus_def)
  from pollLoop_exit_order [of "301 * 1000000000" slowWorld "''service-token''" "''job123''" 1 "[]"]
    late
  have 1: "pollLoop slowWorld ''service-token'' ''job123'' 1 (301 * 1000000000) []
             = (Inl ProcessingTimedOut, [])"
    by blast
  from pollLoop_exit_order [of 0 ?refused "''service-token''" "''job123''" 0 "[]"
      "Foreign ''connection refused''"] early refused
  have 2: "pollLoop ?refused ''service-token'' ''job123'' 0 0 []
             = (Inl (Foreign ''connection refused''), [] @ [GetJobStatus ''service-token'' ''job123''])"
    by blast
  from pollLoop_exit_order [of 0 ?ready "''service-token''" "''job123''" 0 "[]" _ ?both exampleBlob]
    early both
  have 3: "pollLoop ?ready ''service-token'' ''job123'' 0 0 []
             = (Inr exampleBlob, [] @ [GetJobStatus ''service-token'' ''job123''])"
    by blast
  from pollLoop_exit_order [of 0 ?dup "''service-token''" "''job123''" 0 "[]" _ completedStatus
      exampleBlob 409 None] early dup
  have 4: "pollLoop ?dup ''service-token'' ''job123'' 0 0 []
             = (Inr exampleBlob, [] @ [GetJobStatus ''service-token'' ''job123''])"
    by blast
  from pollLoop_exit_order [of 0 ?failed "''service-token''" "''job123''" 0 "[]" _ ?bad]
    early bad
  have 5: "pollLoop ?failed ''service-token'' ''job123'' 0 0 []
             = (Inl (ProcessingFailed (VideoJobStatus.Error ?bad)),
                [] @ [GetJobStatus ''service-token'' ''job123''])"
    by blast
  from pollLoop_exit_order [of 0 exampleWorld "''service-token''" "''job123''" 0 "[]" _
      processingStatus] early going
  have 6: "pollLoop exampleWorld ''service-token'' ''job123'' 0 0 []
             = pollLoop exampleWorld ''service-token'' ''job123'' (0 + 1)
                 (0 + jobStatusTook exampleWorld 0 + videoStatusPollDelay + overslept exampleWorld 0)
                 ([] @ [GetJobStatus ''service-token'' ''job123'', Sleep videoStatusPollDelay])"
    by blast
  have err5: "VideoJobStatus.Error ?bad = ''bad codec''"
    by simp
  have next6: "0 + jobStatusTook exampleWorld 0 + videoStatusPollDelay + overslept exampleWorld 0
              = 2 * 1000000000"
    by (simp add: exampleWorld_def videoStatusPollDelay_def)
  from 1 2 3 4 5 6 show ?thesis
    unfolding err5 next6 by simp
qed

section \<open>The number of images\<close>

text \<open>
  C6. When the image-path input resolves to more than 4 paths, \<^verbatim>\<open>processImages\<close> fails
  with the error that names the limit and the count, in every world and having done
  nothing: no file is read and no blob is uploaded. When it resolves to no path, the
  result is no embed and no error, again without anything done.
\<close>

theorem processImages_count_rule:
  "(4 < length (parseImagePaths imagePaths)
      \<longrightarrow> processImages w pdsURL accessToken imagePaths altTexts tr
          = (Inl (TooManyImages 4 (length (parseImagePaths imagePaths))), tr))
   \<and> (parseImagePaths imagePaths = []
      \<longrightarrow> processImages w pdsURL accessToken imagePaths altTexts tr = (Inr None, tr))"
  by (simp add: processImages_def maxImagesPerPost_def Let_def)

theorem processImages_count_rule_witness:
  "processImages exampleWorld ''https://bsky.social'' ''jwt''
     ''a.png,b.png,c.png,d.png,e.png'' ''Test'' []
     = (Inl (TooManyImages 4 5), [])
   \<and> errorString (TooManyImages 4 5) = ''maximum 4 images allowed per post, got 5''
   \<and> processImages exampleWorld ''https://bsky.social'' ''jwt'' '' , , '' ''Test'' []
     = (Inr None, [])"
proof -
  have five: "parseImagePaths ''a.png,b.png,c.png,d.png,e.png''
                = [''a.png'', ''b.png'', ''c.png'', ''d.png'', ''e.png'']"
    by code_simp
  have none: "parseImagePaths '' , , '' = []"
    by code_simp
  have digits: "Itoa 4 = ''4''" "Itoa 5 = ''5''"
    by (simp_all add: Itoa.simps digitChar_def)
  from processImages_count_rule
         [of "''a.png,b.png,c.png,d.png,e.png''" exampleWorld "''https://bsky.social''" "''jwt''"
             "''Test''" "[]"]
  have "processImages exampleWorld ''https://bsky.social'' ''jwt''
          ''a.png,b.png,c.png,d.png,e.png'' ''Test'' []
        = (Inl (TooManyImages 4 5), [])"
    by (simp add: five)
  moreover
  from processImages_count_rule
         [of "'' , , ''" exampleWorld "''https://bsky.social''" "''jwt''" "''Test''" "[]"] none
  have "processImages exampleWorld ''https://bsky.social'' ''jwt'' '' , , '' ''Test'' []
        = (Inr None, [])"
    by blast
  ultimately show ?thesis
    by (simp add: digits)
qed

section \<open>The choice of the embed\<close>

lemma main_session_failed:
  "createSession w (PDSURL args) (Handle args) (Password args) = Inl err
     \<Longrightarrow> main w args = (Exit1 err, [CreateSession (PDSURL args) (Handle args)])"
  by (simp add: main_def Let_def)

lemma main_video_failed:
  "\<lbrakk>createSession w (PDSURL args) (Handle args) (Password args) = Inr session;
    VideoPath args \<noteq> '''';
    processVideos w (PDSURL args) (AccessToken session) (UserID session) (VideoPath args)
      (VideoAltText args) [CreateSession (PDSURL args) (Handle args)] = (Inl err, tr)\<rbrakk>
     \<Longrightarrow> main w args = (Exit1 err, tr)"
  by (simp add: main_def Let_def)

lemma main_video_done:
  "\<lbrakk>createSession w (PDSURL args) (Handle args) (Password args) = Inr session;
    VideoPath args \<noteq> '''';
    processVideos w (PDSURL args) (AccessToken session) (UserID session) (VideoPath args)
      (VideoAltText args) [CreateSession (PDSURL args) (Handle args)] = (Inr videoEmbed, tr)\<rbrakk>
     \<Longrightarrow> submits w args (VideoPtr videoEmbed) tr"
  by (simp add: main_def submits_def postWith_def Let_def split: option.splits)

lemma main_images_failed:
  "\<lbrakk>createSession w (PDSURL args) (Handle args) (Password args) = Inr session;
    VideoPath args = ''''; ImagePaths args \<noteq> '''';
    processImages w (PDSURL args) (AccessToken session) (ImagePaths args) (ImageAltTexts args)
      [CreateSession (PDSURL args) (Handle args)] = (Inl err, tr)\<rbrakk>
     \<Longrightarrow> main w args = (Exit1 err, tr)"
  by (simp add: main_def Let_def)

lemma main_images_nil:
  "\<lbrakk>createSession w (PDSURL args) (Handle args) (Password args) = Inr session;
    VideoPath args = ''''; ImagePaths args \<noteq> '''';
    processImages w (PDSURL args) (AccessToken session) (ImagePaths args) (ImageAltTexts args)
      [CreateSession (PDSURL args) (Handle args)] = (Inr None, tr)\<rbrakk>
     \<Longrightarrow> main w args = (Panic NilPointerDereference, tr)"
  by (simp add: main_def Let_def)

lemma main_images_done:
  "\<lbrakk>createSession w (PDSURL args) (Handle args) (Password args) = Inr session;
    VideoPath args = ''''; ImagePaths args \<noteq> '''';
    processImages w (PDSURL args) (AccessToken session) (ImagePaths args) (ImageAltTexts args)
      [CreateSession (PDSURL args) (Handle args)] = (Inr (Some images), tr)\<rbrakk>
     \<Longrightarrow> submits w args (ImagesPtr (Some images)) tr"
  by (simp add: main_def submits_def postWith_def Let_def split: option.splits)

lemma main_link:
  "\<lbrakk>createSession w (PDSURL args) (Handle args) (Password args) = Inr session;
    VideoPath args = ''''; ImagePaths args = ''''; EnableEmbeds args;
    parseRichTextFacets w (ActionInputs.Text args) = facet # facets;
    Features facet = feature # features\<rbrakk>
     \<Longrightarrow> submits w args (ExternalPtr (fetchLinkMetadata w (RichTextFeature.URI feature)))
           [CreateSession (PDSURL args) (Handle args),
            FetchLinkMetadata (RichTextFeature.URI feature)]"
  by (simp add: main_def submits_def postWith_def Let_def split: option.splits)

lemma main_plain:
  "\<lbrakk>createSession w (PDSURL args) (Handle args) (Password args) = Inr session;
    VideoPath args = ''''; ImagePaths args = '''';
    \<not> (EnableEmbeds args \<and> parseRichTextFacets w (ActionInputs.Text args) \<noteq> [])\<rbrakk>
     \<Longrightarrow> submits w args NoEmbed [CreateSession (PDSURL args) (Handle args)]"
  by (auto simp: main_def submits_def postWith_def Let_def split: option.splits)

lemma submits_trace:
  "submits w args embedded tr \<Longrightarrow> snd (main w args) = tr @ [PublishPost (postWith w args embedded)]"
  by (simp add: submits_def)

lemma pollLoop_events:
  "\<exists>evs. snd (pollLoop w serviceToken jobID k elapsed tr) = tr @ evs
     \<and> list_all (\<lambda>ev. \<not> isUploadBlob ev \<and> \<not> isFetchLinkMetadata ev) evs"
proof (induction w serviceToken jobID k elapsed tr rule: pollLoop.induct)
  case (1 w serviceToken jobID k elapsed tr)
  let ?ok = "list_all (\<lambda>ev. \<not> isUploadBlob ev \<and> \<not> isFetchLinkMetadata ev)"
  let ?loop = "pollLoop w serviceToken jobID k elapsed tr"
  have one: "\<exists>evs. tr @ [GetJobStatus serviceToken jobID] = tr @ evs \<and> ?ok evs"
    by (intro exI [of _ "[GetJobStatus serviceToken jobID]"]) simp
  show ?case
  proof (cases "videoStatusMaxWait < elapsed")
    case True
    then have "snd ?loop = tr @ []"
      by (simp add: pollLoop_deadline)
    then show ?thesis
      by (intro exI [of _ "[]"]) simp
  next
    case within: False
    show ?thesis
    proof (cases "getVideoJobStatus (jobStatusReply w k)")
      case (Inl err)
      with within have "snd ?loop = tr @ [GetJobStatus serviceToken jobID]"
        by (simp add: pollLoop_request_failed)
      with one show ?thesis
        by simp
    next
      case (Inr status)
      show ?thesis
      proof (cases "VideoJobStatus.Blob status")
        case (Some blob)
        with within Inr have "snd ?loop = tr @ [GetJobStatus serviceToken jobID]"
          by (simp add: pollLoop_blob)
        with one show ?thesis
          by simp
      next
        case None
        show ?thesis
        proof (cases "State status = ''failed'' \<or> VideoJobStatus.Error status \<noteq> ''''")
          case True
          with within Inr None have "snd ?loop = tr @ [GetJobStatus serviceToken jobID]"
            by (simp add: pollLoop_job_failed)
          with one show ?thesis
            by simp
        next
          case False
          let ?round = "[GetJobStatus serviceToken jobID, Sleep videoStatusPollDelay]"
          from "1.IH" [OF within Inr None False]
          obtain evs where evs:
            "snd (pollLoop w serviceToken jobID (k + 1)
                    (elapsed + jobStatusTook w k + videoStatusPollDelay + overslept w k)
                    (tr @ ?round))
             = (tr @ ?round) @ evs" "?ok evs"
            by blast
          from within Inr None False
          have "?loop = pollLoop w serviceToken jobID (k + 1)
                          (elapsed + jobStatusTook w k + videoStatusPollDelay + overslept w k)
                          (tr @ ?round)"
            by (intro pollLoop_again [where status = status]) auto
          with evs have "snd ?loop = tr @ (?round @ evs)" "?ok (?round @ evs)"
            by simp_all
          then show ?thesis
            by blast
        qed
      qed
    qed
  qed
qed

lemma processVideo_events:
  "\<exists>evs. snd (processVideo w pdsURL accessToken userDID path altText tr) = tr @ evs
     \<and> list_all (\<lambda>ev. \<not> isUploadBlob ev \<and> \<not> isFetchLinkMetadata ev) evs"
proof -
  let ?ok = "list_all (\<lambda>ev. \<not> isUploadBlob ev \<and> \<not> isFetchLinkMetadata ev)"
  have poll: "\<exists>evs. snd (pollVideoJobUntilComplete w s j (tr @ pre)) = tr @ evs \<and> ?ok evs"
    if "?ok pre" for s j pre
  proof -
    from pollLoop_events [of w s j 0 "firstCheck w" "tr @ pre"]
    obtain evs where "snd (pollVideoJobUntilComplete w s j (tr @ pre)) = (tr @ pre) @ evs"
      "?ok evs"
      by (auto simp: pollVideoJobUntilComplete_def)
    with that have "snd (pollVideoJobUntilComplete w s j (tr @ pre)) = tr @ (pre @ evs)"
      "?ok (pre @ evs)"
      by simp_all
    then show ?thesis
      by blast
  qed
  have short: "\<exists>evs. tr @ pre = tr @ evs \<and> ?ok evs" if "?ok pre" for pre
    using that by blast
  show ?thesis
  proof (cases "readFile w path")
    case (Inl err)
    then show ?thesis
      by (simp add: processVideo_def)
  next
    case read: (Inr videoData)
    show ?thesis
    proof (cases "validateVideoData path videoData")
      case (Some err)
      with read show ?thesis
        by (simp add: processVideo_def)
    next
      case valid: None
      show ?thesis
      proof (cases "getServiceAuthToken w pdsURL accessToken userDID")
        case (Inl err)
        with read valid show ?thesis
          by (simp add: processVideo_def Let_def)
      next
        case auth: (Inr serviceToken)
        let ?pre = "[ReadFile path, GetServiceAuth pdsURL,
                     UploadVideo (Base path) (detectVideoMimeType path) (length videoData)]"
        have pre: "?ok ?pre"
          by simp
        show ?thesis
        proof (cases "uploadVideoToService w userDID serviceToken videoData (Base path)
                        (detectVideoMimeType path)")
          case (Inl err)
          with read valid auth show ?thesis
            by (simp add: processVideo_def Let_def)
        next
          case up: (Inr uploadResp)
          show ?thesis
          proof (cases "Option.bind (VideoUploadResponse.Status uploadResp) VideoJobStatus.Blob")
            case (Some blob)
            with read valid auth up show ?thesis
              by (simp add: processVideo_def Let_def)
          next
            case None
            from poll [OF pre, of serviceToken "VideoUploadResponse.JobID uploadResp"]
            obtain evs where evs:
              "snd (pollVideoJobUntilComplete w serviceToken
                      (VideoUploadResponse.JobID uploadResp) (tr @ ?pre)) = tr @ evs" "?ok evs"
              by blast
            from read valid auth up None
            have "snd (processVideo w pdsURL accessToken userDID path altText tr)
                    = snd (pollVideoJobUntilComplete w serviceToken
                             (VideoUploadResponse.JobID uploadResp) (tr @ ?pre))"
              by (simp add: processVideo_def Let_def split: prod.splits sum.splits)
            with evs show ?thesis
              by auto
          qed
        qed
      qed
    qed
  qed
qed

lemma processVideos_events:
  "\<exists>evs. snd (processVideos w pdsURL accessToken userDID videoPath altText tr) = tr @ evs
     \<and> list_all (\<lambda>ev. \<not> isUploadBlob ev \<and> \<not> isFetchLinkMetadata ev) evs"
proof (cases "videoPath = [] \<or> TrimSpace videoPath = []")
  case True
  then have "snd (processVideos w pdsURL accessToken userDID videoPath altText tr) = tr"
    by (auto simp: processVideos_def)
  then show ?thesis
    by (intro exI [of _ "[]"]) simp
next
  case False
  let ?alt = "TrimSpace (if altText = [] then ''Video'' else altText)"
  let ?one = "processVideo w pdsURL accessToken userDID (TrimSpace videoPath) ?alt tr"
  obtain r tr1 where one: "?one = (r, tr1)"
    by (cases ?one)
  with False have "snd (processVideos w pdsURL accessToken userDID videoPath altText tr) = snd ?one"
    by (cases r) (simp_all add: processVideos_def Let_def)
  with processVideo_events [of w pdsURL accessToken userDID "TrimSpace videoPath" ?alt tr]
  show ?thesis
    by simp
qed

lemma processImage_events:
  "\<exists>evs. snd (processImage w pdsURL accessToken path altText tr) = tr @ evs
     \<and> list_all (\<lambda>ev. \<not> isVideoCall ev \<and> \<not> isFetchLinkMetadata ev) evs"
  by (auto simp: processImage_def Let_def split: sum.splits option.splits)

lemma processImagesLoop_events:
  "\<exists>evs. snd (processImagesLoop w pdsURL accessToken alts i paths embedImages tr) = tr @ evs
     \<and> list_all (\<lambda>ev. \<not> isVideoCall ev \<and> \<not> isFetchLinkMetadata ev) evs"
proof (induction paths arbitrary: i embedImages tr)
  case Nil
  show ?case
    by (intro exI [of _ "[]"]) simp
next
  case (Cons path paths)
  let ?ok = "list_all (\<lambda>ev. \<not> isVideoCall ev \<and> \<not> isFetchLinkMetadata ev)"
  let ?one = "processImage w pdsURL accessToken path (resolveAltText i alts) tr"
  from processImage_events [of w pdsURL accessToken path "resolveAltText i alts" tr]
  obtain evs where evs: "snd ?one = tr @ evs" "?ok evs"
    by blast
  obtain r tr1 where one: "?one = (r, tr1)"
    by (cases ?one)
  show ?case
  proof (cases r)
    case (Inl err)
    with one
    have "snd (processImagesLoop w pdsURL accessToken alts i (path # paths) embedImages tr)
            = snd ?one"
      by (simp add: Let_def)
    with evs show ?thesis
      by auto
  next
    case (Inr embedImage)
    with one
    have "snd (processImagesLoop w pdsURL accessToken alts i (path # paths) embedImages tr)
            = snd (processImagesLoop w pdsURL accessToken alts (i + 1) paths
                     (embedImages @ [embedImage]) (snd ?one))"
      by (simp add: Let_def)
    moreover from Cons.IH [of "i + 1" "embedImages @ [embedImage]" "snd ?one"]
    obtain more where "snd (processImagesLoop w pdsURL accessToken alts (i + 1) paths
                              (embedImages @ [embedImage]) (snd ?one)) = snd ?one @ more"
      "?ok more"
      by blast
    ultimately have
      "snd (processImagesLoop w pdsURL accessToken alts i (path # paths) embedImages tr)
         = tr @ (evs @ more)" "?ok (evs @ more)"
      using evs by simp_all
    then show ?thesis
      by blast
  qed
qed

lemma processImages_events:
  "\<exists>evs. snd (processImages w pdsURL accessToken imagePaths altTexts tr) = tr @ evs
     \<and> list_all (\<lambda>ev. \<not> isVideoCall ev \<and> \<not> isFetchLinkMetadata ev) evs"
proof -
  have "snd (processImages w pdsURL accessToken imagePaths altTexts tr) = tr
      \<or> snd (processImages w pdsURL accessToken imagePaths altTexts tr)
          = snd (processImagesLoop w pdsURL accessToken (Split altTexts CHR '','') 0
                   (parseImagePaths imagePaths) [] tr)"
    by (auto simp: processImages_def Let_def split: prod.splits sum.splits)
  then show ?thesis
  proof
    assume "snd (processImages w pdsURL accessToken imagePaths altTexts tr) = tr"
    then show ?thesis
      by (intro exI [of _ "[]"]) simp
  next
    assume "snd (processImages w pdsURL accessToken imagePaths altTexts tr)
          = snd (processImagesLoop w pdsURL accessToken (Split altTexts CHR '','') 0
                   (parseImagePaths imagePaths) [] tr)"
    with processImagesLoop_events show ?thesis
      by metis
  qed
qed

lemma exampleWorld_session:
  "createSession exampleWorld pdsURL handle password
     = Inr \<lparr>AccessToken = ''jwt'', UserID = ''did:plc:test''\<rparr>"
  "createSession cachedWorld pdsURL handle password
     = Inr \<lparr>AccessToken = ''jwt'', UserID = ''did:plc:test''\<rparr>"
  "createSession linkWorld pdsURL handle password
     = Inr \<lparr>AccessToken = ''jwt'', UserID = ''did:plc:test''\<rparr>"
  by (simp_all add: exampleWorld_def cachedWorld_def linkWorld_def)

lemma clip_facts:
  "TrimSpace ''clip.mp4'' = ''clip.mp4''"
  "detectVideoMimeType ''clip.mp4'' = ''video/mp4''"
  "Base ''clip.mp4'' = ''clip.mp4''"
  by code_simp+

lemma cachedWorld_video:
  "processVideos cachedWorld pdsURL ''jwt'' ''did:plc:test'' ''clip.mp4'' altText tr
     = (Inr (Some \<lparr>EmbedVideo.Type = ''app.bsky.embed.video'', Video = exampleBlob,
                    AspectRatio = None,
                    Alt = TrimSpace (if altText = [] then ''Video'' else altText),
                    Captions = []\<rparr>),
        tr @ [ReadFile ''clip.mp4'', GetServiceAuth pdsURL,
              UploadVideo ''clip.mp4'' ''video/mp4'' 1024])"
  by (simp add: processVideos_def processVideo_def clip_facts validateVideoData_def
      maxVideoSize_def cachedWorld_def exampleWorld_def completedStatus_def Let_def)

lemma picture_facts:
  "parseImagePaths ''a.png'' = [''a.png'']"
  "Split [] CHR '','' = [[]]"
  "resolveAltText 0 [[]] = ''Image 1''"
  "detectImageMimeType ''a.png'' = ''image/png''"
  by code_simp+

lemma exampleWorld_images:
  "processImages exampleWorld pdsURL ''jwt'' ''a.png'' [] tr
     = (Inr (Some \<lparr>EmbedImages.Type = ''app.bsky.embed.images'',
                    Images = [\<lparr>EmbedImage.Alt = ''Image 1'', Image = exampleBlob,
                               AspectRatio = Some \<lparr>Width = 1, Height = 1\<rparr>\<rparr>]\<rparr>),
        tr @ [ReadFile ''a.png'', UploadBlob ''image/png'' 1024])"
  by (simp add: processImages_def processImage_def picture_facts validateImageData_def
      maxImageSize_def maxImagesPerPost_def getImageDimensions_def exampleWorld_def Let_def)

text \<open>
  C5. After the session has been created, the embed is chosen in a fixed order. With a
  video path that is not the empty string, the run is what \<^verbatim>\<open>processVideos\<close> makes of
  it: its error ends the run, its result is the embed of the post; no blob is uploaded
  as an image and no link card is fetched, and the image paths and their alternative
  texts change nothing. Else, with image paths that are not the empty string, the run is
  what \<^verbatim>\<open>processImages\<close> makes of it (the run panics on its nil result); no link card
  is fetched, no call of the video path is made, and the switch for link cards changes
  nothing. Else, with link cards enabled and a link found in the text, one link card
  is fetched, for the first link, and its result is the embed. Else the post has no
  embed.
\<close>

theorem embed_selection_priority:
  assumes "createSession w (PDSURL args) (Handle args) (Password args) = Inr session"
  shows
    "(VideoPath args \<noteq> '''' \<longrightarrow>
        (case processVideos w (PDSURL args) (AccessToken session) (UserID session)
                (VideoPath args) (VideoAltText args)
                [CreateSession (PDSURL args) (Handle args)] of
           (Inl err, tr) \<Rightarrow> main w args = (Exit1 err, tr)
         | (Inr videoEmbed, tr) \<Rightarrow> submits w args (VideoPtr videoEmbed) tr)
        \<and> list_all (\<lambda>ev. \<not> isUploadBlob ev \<and> \<not> isFetchLinkMetadata ev) (snd (main w args))
        \<and> main w (args \<lparr>ImagePaths := imagePaths, ImageAltTexts := altTexts\<rparr>) = main w args)
     \<and> (VideoPath args = '''' \<and> ImagePaths args \<noteq> '''' \<longrightarrow>
        (case processImages w (PDSURL args) (AccessToken session) (ImagePaths args)
                (ImageAltTexts args) [CreateSession (PDSURL args) (Handle args)] of
           (Inl err, tr) \<Rightarrow> main w args = (Exit1 err, tr)
         | (Inr None, tr) \<Rightarrow> main w args = (Panic NilPointerDereference, tr)
         | (Inr (Some images), tr) \<Rightarrow> submits w args (ImagesPtr (Some images)) tr)
        \<and> list_all (\<lambda>ev. \<not> isVideoCall ev \<and> \<not> isFetchLinkMetadata ev) (snd (main w args))
        \<and> main w (args \<lparr>EnableEmbeds := enable\<rparr>) = main w args)
     \<and> (VideoPath args = '''' \<and> ImagePaths args = '''' \<and> EnableEmbeds args
          \<and> parseRichTextFacets w (ActionInputs.Text args) = facet # facets
          \<and> Features facet = feature # features \<longrightarrow>
        submits w args (ExternalPtr (fetchLinkMetadata w (RichTextFeature.URI feature)))
          [CreateSession (PDSURL args) (Handle args),
           FetchLinkMetadata (RichTextFeature.URI feature)])
     \<and> (VideoPath args = '''' \<and> ImagePaths args = ''''
          \<and> \<not> (EnableEmbeds args \<and> parseRichTextFacets w (ActionInputs.Text args) \<noteq> []) \<longrightarrow>
        submits w args NoEmbed [CreateSession (PDSURL args) (Handle args)])"
proof (intro conjI impI)
  let ?tr0 = "[CreateSession (PDSURL args) (Handle args)]"
  let ?video = "processVideos w (PDSURL args) (AccessToken session) (UserID session)
                  (VideoPath args) (VideoAltText args) ?tr0"
  assume video: "VideoPath args \<noteq> ''''"
  obtain r tr where run: "?video = (r, tr)"
    by (cases ?video)
  from processVideos_events [of w "PDSURL args" "AccessToken session" "UserID session"
      "VideoPath args" "VideoAltText args" ?tr0] run
  have quiet: "list_all (\<lambda>ev. \<not> isUploadBlob ev \<and> \<not> isFetchLinkMetadata ev) tr"
    by auto
  show "case ?video of
          (Inl err, tr) \<Rightarrow> main w args = (Exit1 err, tr)
        | (Inr videoEmbed, tr) \<Rightarrow> submits w args (VideoPtr videoEmbed) tr"
    using assms video run by (cases r) (simp_all add: main_video_failed main_video_done)
  show "list_all (\<lambda>ev. \<not> isUploadBlob ev \<and> \<not> isFetchLinkMetadata ev) (snd (main w args))"
  proof (cases r)
    case (Inl err)
    with assms video run have "main w args = (Exit1 err, tr)"
      by (simp add: main_video_failed)
    with quiet show ?thesis
      by simp
  next
    case (Inr videoEmbed)
    with assms video run have "submits w args (VideoPtr videoEmbed) tr"
      by (simp add: main_video_done)
    with quiet show ?thesis
      by (simp add: submits_trace)
  qed
  from assms video
  show "main w (args \<lparr>ImagePaths := imagePaths, ImageAltTexts := altTexts\<rparr>) = main w args"
    by (simp add: main_def Let_def split: prod.splits sum.splits option.splits)
next
  let ?tr0 = "[CreateSession (PDSURL args) (Handle args)]"
  let ?images = "processImages w (PDSURL args) (AccessToken session) (ImagePaths args)
                   (ImageAltTexts args) ?tr0"
  assume images: "VideoPath args = '''' \<and> ImagePaths args \<noteq> ''''"
  obtain r tr where run: "?images = (r, tr)"
    by (cases ?images)
  from processImages_events [of w "PDSURL args" "AccessToken session" "ImagePaths args"
      "ImageAltTexts args" ?tr0] run
  have quiet: "list_all (\<lambda>ev. \<not> isVideoCall ev \<and> \<not> isFetchLinkMetadata ev) tr"
    by auto
  have ends: "(\<exists>err. r = Inl err \<and> main w args = (Exit1 err, tr))
      \<or> (r = Inr None \<and> main w args = (Panic NilPointerDereference, tr))
      \<or> (\<exists>found. r = Inr (Some found) \<and> submits w args (ImagesPtr (Some found)) tr)"
  proof (cases r)
    case (Inl err)
    with assms images run show ?thesis
      by (simp add: main_images_failed)
  next
    case (Inr imageEmbed)
    with assms images run show ?thesis
      by (cases imageEmbed) (simp_all add: main_images_nil main_images_done)
  qed
  with run
  show "case ?images of
          (Inl err, tr) \<Rightarrow> main w args = (Exit1 err, tr)
        | (Inr None, tr) \<Rightarrow> main w args = (Panic NilPointerDereference, tr)
        | (Inr (Some images), tr) \<Rightarrow> submits w args (ImagesPtr (Some images)) tr"
    by auto
  from ends quiet
  show "list_all (\<lambda>ev. \<not> isVideoCall ev \<and> \<not> isFetchLinkMetadata ev) (snd (main w args))"
    by (auto simp: submits_trace)
  from assms images
  show "main w (args \<lparr>EnableEmbeds := enable\<rparr>) = main w args"
    by (simp add: main_def Let_def split: prod.splits sum.splits option.splits)
next
  assume "VideoPath args = '''' \<and> ImagePaths args = '''' \<and> EnableEmbeds args
            \<and> parseRichTextFacets w (ActionInputs.Text args) = facet # facets
            \<and> Features facet = feature # features"
  with assms
  show "submits w args (ExternalPtr (fetchLinkMetadata w (RichTextFeature.URI feature)))
          [CreateSession (PDSURL args) (Handle args),
           FetchLinkMetadata (RichTextFeature.URI feature)]"
    by (intro main_link) auto
next
  assume "VideoPath args = '''' \<and> ImagePaths args = ''''
            \<and> \<not> (EnableEmbeds args \<and> parseRichTextFacets w (ActionInputs.Text args) \<noteq> [])"
  with assms show "submits w args NoEmbed [CreateSession (PDSURL args) (Handle args)]"
    by (intro main_plain) auto
qed

theorem embed_selection_priority_witness:
  "submits cachedWorld
     (exampleArgs \<lparr>ImagePaths := ''a.png'', VideoPath := ''clip.mp4''\<rparr>)
     (VideoPtr (Some \<lparr>EmbedVideo.Type = ''app.bsky.embed.video'', Video = exampleBlob,
                      AspectRatio = None, Alt = ''Video'', Captions = []\<rparr>))
     [CreateSession ''https://bsky.social'' ''alice.test'', ReadFile ''clip.mp4'',
      GetServiceAuth ''https://bsky.social'', UploadVideo ''clip.mp4'' ''video/mp4'' 1024]
   \<and> main cachedWorld (exampleArgs \<lparr>ImagePaths := ''a.png'', VideoPath := ''clip.mp4''\<rparr>)
       = main cachedWorld (exampleArgs \<lparr>VideoPath := ''clip.mp4''\<rparr>)
   \<and> submits linkWorld (exampleArgs \<lparr>ImagePaths := ''a.png''\<rparr>)
       (ImagesPtr (Some \<lparr>EmbedImages.Type = ''app.bsky.embed.images'',
                         Images = [\<lparr>EmbedImage.Alt = ''Image 1'', Image = exampleBlob,
                                    AspectRatio = Some \<lparr>Width = 1, Height = 1\<rparr>\<rparr>]\<rparr>))
       [CreateSession ''https://bsky.social'' ''alice.test'', ReadFile ''a.png'',
        UploadBlob ''image/png'' 1024]
   \<and> submits linkWorld exampleArgs (ExternalPtr None)
       [CreateSession ''https://bsky.social'' ''alice.test'',
        FetchLinkMetadata ''https://example.com'']
   \<and> submits exampleWorld exampleArgs NoEmbed
       [CreateSession ''https://bsky.social'' ''alice.test'']"
proof -
  let ?session = "\<lparr>AccessToken = ''jwt'', UserID = ''did:plc:test''\<rparr>"
  let ?tr0 = "[CreateSession ''https://bsky.social'' ''alice.test'']"
  let ?both = "exampleArgs \<lparr>ImagePaths := ''a.png'', VideoPath := ''clip.mp4''\<rparr>"
  let ?video = "exampleArgs \<lparr>VideoPath := ''clip.mp4''\<rparr>"
  let ?pictures = "exampleArgs \<lparr>ImagePaths := ''a.png''\<rparr>"
  have s1: "createSession cachedWorld (PDSURL ?video) (Handle ?video) (Password ?video)
              = Inr ?session"
    by (rule exampleWorld_session)
  have s2: "createSession linkWorld (PDSURL ?pictures) (Handle ?pictures) (Password ?pictures)
              = Inr ?session"
    by (rule exampleWorld_session)
  have s3: "createSession linkWorld (PDSURL exampleArgs) (Handle exampleArgs)
              (Password exampleArgs) = Inr ?session"
    by (rule exampleWorld_session)
  have s4: "createSession exampleWorld (PDSURL exampleArgs) (Handle exampleArgs)
              (Password exampleArgs) = Inr ?session"
    by (rule exampleWorld_session)
  have same: "?video \<lparr>ImagePaths := ''a.png'', ImageAltTexts := ''''\<rparr> = ?both"
    by (simp add: exampleArgs_def)
  have v: "VideoPath ?video \<noteq> ''''"
    by (simp add: exampleArgs_def)
  have run1: "processVideos cachedWorld (PDSURL ?video) (AccessToken ?session) (UserID ?session)
                (VideoPath ?video) (VideoAltText ?video)
                [CreateSession (PDSURL ?video) (Handle ?video)]
              = (Inr (Some \<lparr>EmbedVideo.Type = ''app.bsky.embed.video'', Video = exampleBlob,
                             AspectRatio = None, Alt = ''Video'', Captions = []\<rparr>),
                 ?tr0 @ [ReadFile ''clip.mp4'', GetServiceAuth ''https://bsky.social'',
                         UploadVideo ''clip.mp4'' ''video/mp4'' 1024])"
  proof -
    have "TrimSpace ''Video'' = ''Video''"
      by code_simp
    then show ?thesis
      by (simp add: exampleArgs_def cachedWorld_video)
  qed
  note video = embed_selection_priority [where imagePaths = "''a.png''" and altTexts = "''''",
      OF s1, THEN conjunct1, THEN mp, OF v]
  note inv = video [THEN conjunct2, THEN conjunct2]
  from video [THEN conjunct1]
  have "submits cachedWorld ?video
               (VideoPtr (Some \<lparr>EmbedVideo.Type = ''app.bsky.embed.video'', Video = exampleBlob,
                                AspectRatio = None, Alt = ''Video'', Captions = []\<rparr>))
               [CreateSession ''https://bsky.social'' ''alice.test'', ReadFile ''clip.mp4'',
                GetServiceAuth ''https://bsky.social'', UploadVideo ''clip.mp4'' ''video/mp4'' 1024]"
    unfolding run1 by simp
  with inv have 1: "submits cachedWorld ?both
               (VideoPtr (Some \<lparr>EmbedVideo.Type = ''app.bsky.embed.video'', Video = exampleBlob,
                                AspectRatio = None, Alt = ''Video'', Captions = []\<rparr>))
               [CreateSession ''https://bsky.social'' ''alice.test'', ReadFile ''clip.mp4'',
                GetServiceAuth ''https://bsky.social'', UploadVideo ''clip.mp4'' ''video/mp4'' 1024]"
    and 2: "main cachedWorld ?both = main cachedWorld ?video"
    unfolding same by (simp_all add: submits_def postWith_def exampleArgs_def)
  have p: "VideoPath ?pictures = '''' \<and> ImagePaths ?pictures \<noteq> ''''"
    by (simp add: exampleArgs_def)
  have run2: "processImages linkWorld (PDSURL ?pictures) (AccessToken ?session)
                (ImagePaths ?pictures) (ImageAltTexts ?pictures)
                [CreateSession (PDSURL ?pictures) (Handle ?pictures)]
              = (Inr (Some \<lparr>EmbedImages.Type = ''app.bsky.embed.images'',
                             Images = [\<lparr>EmbedImage.Alt = ''Image 1'', Image = exampleBlob,
                                        AspectRatio = Some \<lparr>Width = 1, Height = 1\<rparr>\<rparr>]\<rparr>),
                 ?tr0 @ [ReadFile ''a.png'', UploadBlob ''image/png'' 1024])"
    by (simp add: processImages_def processImage_def picture_facts validateImageData_def
        maxImageSize_def maxImagesPerPost_def getImageDimensions_def linkWorld_def
        exampleWorld_def exampleArgs_def Let_def)
  from embed_selection_priority [OF s2, THEN conjunct2, THEN conjunct1, THEN mp, OF p,
      THEN conjunct1]
  have 3: "submits linkWorld ?pictures
       (ImagesPtr (Some \<lparr>EmbedImages.Type = ''app.bsky.embed.images'',
                         Images = [\<lparr>EmbedImage.Alt = ''Image 1'', Image = exampleBlob,
                                    AspectRatio = Some \<lparr>Width = 1, Height = 1\<rparr>\<rparr>]\<rparr>))
       [CreateSession ''https://bsky.social'' ''alice.test'', ReadFile ''a.png'',
        UploadBlob ''image/png'' 1024]"
    unfolding run2 by simp
  have l: "VideoPath exampleArgs = '''' \<and> ImagePaths exampleArgs = '''' \<and> EnableEmbeds exampleArgs
      \<and> parseRichTextFacets linkWorld (ActionInputs.Text exampleArgs) = exampleFacet # []
      \<and> Features exampleFacet
          = \<lparr>RichTextFeature.Type = ''app.bsky.richtext.facet#link'',
             URI = ''https://example.com''\<rparr> # []"
    by (simp add: exampleArgs_def linkWorld_def exampleFacet_def)
  from embed_selection_priority [OF s3, THEN conjunct2, THEN conjunct2, THEN conjunct1,
      THEN mp, OF l]
  have 4: "submits linkWorld exampleArgs (ExternalPtr None)
                  [CreateSession ''https://bsky.social'' ''alice.test'',
                   FetchLinkMetadata ''https://example.com'']"
    by (simp add: linkWorld_def exampleWorld_def exampleArgs_def)
  have n: "VideoPath exampleArgs = '''' \<and> ImagePaths exampleArgs = ''''
      \<and> \<not> (EnableEmbeds exampleArgs
            \<and> parseRichTextFacets exampleWorld (ActionInputs.Text exampleArgs) \<noteq> [])"
    by (simp add: exampleArgs_def exampleWorld_def)
  from embed_selection_priority [OF s4, THEN conjunct2, THEN conjunct2, THEN conjunct2,
      THEN mp, OF n]
  have 5: "submits exampleWorld exampleArgs NoEmbed
                  [CreateSession ''https://bsky.social'' ''alice.test'']"
    by (simp add: exampleArgs_def)
  from 1 2 3 4 5 show ?thesis
    by blast
qed

section \<open>Inputs that are blank but not empty\<close>

text \<open>
  C3. With no video path and an image-path input that is not the empty string but
  resolves to no path, \<^verbatim>\<open>processImages\<close> returns the nil embed and the nil error, and
  the run, the session created, ends in the panic of the nil pointer read by the log
  call. Nothing else has happened by then: no post is submitted.
\<close>

theorem main_panics_without_image_paths:
  assumes "createSession w (PDSURL args) (Handle args) (Password args) = Inr session"
    and "VideoPath args = ''''"
    and "ImagePaths args \<noteq> ''''"
    and "parseImagePaths (ImagePaths args) = []"
  shows "processImages w (PDSURL args) (AccessToken session) (ImagePaths args)
           (ImageAltTexts args) [CreateSession (PDSURL args) (Handle args)]
         = (Inr None, [CreateSession (PDSURL args) (Handle args)])
       \<and> main w args
         = (Panic NilPointerDereference, [CreateSession (PDSURL args) (Handle args)])"
proof -
  from assms(4)
  have nil: "processImages w (PDSURL args) (AccessToken session) (ImagePaths args)
               (ImageAltTexts args) [CreateSession (PDSURL args) (Handle args)]
             = (Inr None, [CreateSession (PDSURL args) (Handle args)])"
    by (simp add: processImages_def)
  with assms(1-3) have "main w args
      = (Panic NilPointerDereference, [CreateSession (PDSURL args) (Handle args)])"
    by (rule main_images_nil)
  with nil show ?thesis
    by simp
qed

theorem main_panics_without_image_paths_witness:
  "ImagePaths (exampleArgs \<lparr>ImagePaths := '' , , ''\<rparr>) \<noteq> ''''
   \<and> parseImagePaths (ImagePaths (exampleArgs \<lparr>ImagePaths := '' , , ''\<rparr>)) = []
   \<and> main exampleWorld (exampleArgs \<lparr>ImagePaths := '' , , ''\<rparr>)
       = (Panic NilPointerDereference, [CreateSession ''https://bsky.social'' ''alice.test''])"
proof -
  let ?args = "exampleArgs \<lparr>ImagePaths := '' , , ''\<rparr>"
  have session: "createSession exampleWorld (PDSURL ?args) (Handle ?args) (Password ?args)
                   = Inr \<lparr>AccessToken = ''jwt'', UserID = ''did:plc:test''\<rparr>"
    by (rule exampleWorld_session)
  have video: "VideoPath ?args = ''''"
    by (simp add: exampleArgs_def)
  have given: "ImagePaths ?args \<noteq> ''''"
    by (simp add: exampleArgs_def)
  have "parseImagePaths '' , , '' = []"
    by code_simp
  then have none: "parseImagePaths (ImagePaths ?args) = []"
    by (simp add: exampleArgs_def)
  from main_panics_without_image_paths [OF session video given none]
  have "main exampleWorld ?args
          = (Panic NilPointerDereference, [CreateSession (PDSURL ?args) (Handle ?args)])"
    by (rule conjunct2)
  then have "main exampleWorld ?args
          = (Panic NilPointerDereference, [CreateSession ''https://bsky.social'' ''alice.test''])"
    by (simp add: exampleArgs_def)
  with given none show ?thesis
    by blast
qed

text \<open>
  C10. With a video path that is not the empty string but is all white space, the run
  takes the video branch, \<^verbatim>\<open>processVideos\<close> returns the nil embed and the nil error
  without doing anything, and the post is submitted with that nil video embed: between
  the creation of the session and the submission nothing happens, whatever the image
  paths are.
\<close>

theorem main_blank_video_path:
  assumes "createSession w (PDSURL args) (Handle args) (Password args) = Inr session"
    and "VideoPath args \<noteq> ''''"
    and "TrimSpace (VideoPath args) = ''''"
  shows "processVideos w (PDSURL args) (AccessToken session) (UserID session) (VideoPath args)
           (VideoAltText args) [CreateSession (PDSURL args) (Handle args)]
         = (Inr None, [CreateSession (PDSURL args) (Handle args)])
       \<and> submits w args (VideoPtr None) [CreateSession (PDSURL args) (Handle args)]
       \<and> snd (main w args)
         = [CreateSession (PDSURL args) (Handle args),
            PublishPost (postWith w args (VideoPtr None))]"
proof -
  from assms(3)
  have nil: "processVideos w (PDSURL args) (AccessToken session) (UserID session)
               (VideoPath args) (VideoAltText args) [CreateSession (PDSURL args) (Handle args)]
             = (Inr None, [CreateSession (PDSURL args) (Handle args)])"
    by (simp add: processVideos_def)
  with assms(1,2)
  have sub: "submits w args (VideoPtr None) [CreateSession (PDSURL args) (Handle args)]"
    by (rule main_video_done)
  then have "snd (main w args)
      = [CreateSession (PDSURL args) (Handle args)]
          @ [PublishPost (postWith w args (VideoPtr None))]"
    by (rule submits_trace)
  with nil sub show ?thesis
    by simp
qed

theorem main_blank_video_path_witness:
  "VideoPath (exampleArgs \<lparr>ImagePaths := ''a.png'', VideoPath := ''   ''\<rparr>) \<noteq> ''''
   \<and> main exampleWorld (exampleArgs \<lparr>ImagePaths := ''a.png'', VideoPath := ''   ''\<rparr>)
       = (Returned,
          [CreateSession ''https://bsky.social'' ''alice.test'',
           PublishPost
             \<lparr>Post.Type = ''app.bsky.feed.post'', Text = ''See https://example.com'',
              CreatedAt = ''2024-01-01T00:00:00Z'', Langs = [], Facets = [],
              Embed = VideoPtr None\<rparr>])"
proof -
  let ?args = "exampleArgs \<lparr>ImagePaths := ''a.png'', VideoPath := ''   ''\<rparr>"
  have session: "createSession exampleWorld (PDSURL ?args) (Handle ?args) (Password ?args)
                   = Inr \<lparr>AccessToken = ''jwt'', UserID = ''did:plc:test''\<rparr>"
    by (rule exampleWorld_session)
  have given: "VideoPath ?args \<noteq> ''''"
    by (simp add: exampleArgs_def)
  have "TrimSpace ''   '' = ''''"
    by code_simp
  then have blank: "TrimSpace (VideoPath ?args) = ''''"
    by (simp add: exampleArgs_def)
  from main_blank_video_path [OF session given blank]
  have "submits exampleWorld ?args (VideoPtr None) [CreateSession (PDSURL ?args) (Handle ?args)]"
    by blast
  then have "main exampleWorld ?args
      = (Returned,
          [CreateSession ''https://bsky.social'' ''alice.test'',
           PublishPost
             \<lparr>Post.Type = ''app.bsky.feed.post'', Text = ''See https://example.com'',
              CreatedAt = ''2024-01-01T00:00:00Z'', Langs = [], Facets = [],
              Embed = VideoPtr None\<rparr>])"
    by (simp add: submits_def postWith_def exampleArgs_def exampleWorld_def)
  with given show ?thesis
    by blast
qed

section \<open>Alternative texts of attachments\<close>

lemma processImagesLoop_alts:
  assumes "processImagesLoop w pdsURL accessToken alts i paths embedImages tr
             = (Inr result, tr')"
  shows "map EmbedImage.Alt result
           = map EmbedImage.Alt embedImages
               @ map (\<lambda>n. resolveAltText n alts) [i..<i + length paths]"
  using assms
proof (induction paths arbitrary: i embedImages tr)
  case Nil
  then show ?case
    by simp
next
  case (Cons path paths)
  let ?one = "processImage w pdsURL accessToken path (resolveAltText i alts) tr"
  obtain r tr1 where one: "?one = (r, tr1)"
    by (cases ?one)
  show ?case
  proof (cases r)
    case (Inl err)
    with one Cons.prems show ?thesis
      by (simp add: Let_def)
  next
    case (Inr embedImage)
    with one have alt: "EmbedImage.Alt embedImage = resolveAltText i alts"
      by (auto simp: processImage_def Let_def split: sum.splits option.splits)
    from Inr one Cons.prems
    have "processImagesLoop w pdsURL accessToken alts (i + 1) paths
            (embedImages @ [embedImage]) tr1 = (Inr result, tr')"
      by (simp add: Let_def)
    from Cons.IH [OF this] alt
    have "map EmbedImage.Alt result
            = map EmbedImage.Alt embedImages
                @ resolveAltText i alts
                # map (\<lambda>n. resolveAltText n alts) [Suc i..<Suc i + length paths]"
      by simp
    moreover have "[i..<i + length (path # paths)] = i # [Suc i..<Suc i + length paths]"
    proof -
      have "i < i + length (path # paths)"
        by simp
      then have "[i..<i + length (path # paths)] = i # [Suc i..<i + length (path # paths)]"
        by (rule upt_conv_Cons)
      moreover have "i + length (path # paths) = Suc i + length paths"
        by simp
      ultimately show ?thesis
        by (simp only:)
    qed
    ultimately show ?thesis
      by (simp only: list.map)
  qed
qed

lemma processImages_alts:
  assumes "processImages w pdsURL accessToken imagePaths altTexts tr = (Inr (Some found), tr')"
  shows "map EmbedImage.Alt (Images found)
           = map (\<lambda>n. resolveAltText n (Split altTexts CHR '',''))
               [0..<length (parseImagePaths imagePaths)]"
    and "list_all (\<lambda>image. EmbedImage.Alt image \<noteq> '''') (Images found)"
proof -
  let ?loop = "processImagesLoop w pdsURL accessToken (Split altTexts CHR '','') 0
                 (parseImagePaths imagePaths) [] tr"
  obtain r tr1 where loop: "?loop = (r, tr1)"
    by (cases ?loop)
  from assms loop obtain result where r: "r = Inr result" and found: "Images found = result"
    by (cases r) (auto simp: processImages_def Let_def split: if_splits)
  from processImagesLoop_alts [OF loop [unfolded r]] found
  show alts: "map EmbedImage.Alt (Images found)
           = map (\<lambda>n. resolveAltText n (Split altTexts CHR '',''))
               [0..<length (parseImagePaths imagePaths)]"
    by simp
  have "list_all (\<lambda>alt. alt \<noteq> '''') (map EmbedImage.Alt (Images found))"
    unfolding alts by (simp add: list_all_iff resolveAltText_nonempty)
  then show "list_all (\<lambda>image. EmbedImage.Alt image \<noteq> '''') (Images found)"
    by (simp add: list_all_iff)
qed

lemma processVideo_alt:
  "processVideo w pdsURL accessToken userDID path altText tr = (Inr videoEmbed, tr')
     \<Longrightarrow> EmbedVideo.Alt videoEmbed = altText"
  by (auto simp: processVideo_def Let_def split: sum.splits option.splits prod.splits)

lemma processVideos_alt:
  assumes "processVideos w pdsURL accessToken userDID videoPath altText tr
             = (Inr (Some videoEmbed), tr')"
  shows "EmbedVideo.Alt videoEmbed = TrimSpace (if altText = '''' then ''Video'' else altText)"
proof -
  let ?alt = "TrimSpace (if altText = '''' then ''Video'' else altText)"
  let ?one = "processVideo w pdsURL accessToken userDID (TrimSpace videoPath) ?alt tr"
  obtain r tr1 where one: "?one = (r, tr1)"
    by (cases ?one)
  with assms have "?one = (Inr videoEmbed, tr1)"
    by (cases r) (auto simp: processVideos_def Let_def split: if_splits)
  then show ?thesis
    by (rule processVideo_alt)
qed

text \<open>
  C2 does not hold of the code. The alternative text of every image of a result is
  the resolved one, which is never empty (\<open>processImages_alts\<close>), and an empty video
  text becomes \<^verbatim>\<open>Video\<close>; but \<^verbatim>\<open>processVideos\<close> tests the video text for emptiness
  before it trims it, so a text of white space only is not replaced and is trimmed to
  the empty string. Here the video \<^verbatim>\<open>clip.mp4\<close> is posted with the alternative text of three
  spaces.
\<close>

theorem video_alt_of_spaces_is_empty:
  "main cachedWorld (exampleArgs \<lparr>VideoPath := ''clip.mp4'', VideoAltText := ''   ''\<rparr>)
     = (Returned,
        [CreateSession ''https://bsky.social'' ''alice.test'', ReadFile ''clip.mp4'',
         GetServiceAuth ''https://bsky.social'', UploadVideo ''clip.mp4'' ''video/mp4'' 1024,
         PublishPost
           \<lparr>Post.Type = ''app.bsky.feed.post'', Text = ''See https://example.com'',
            CreatedAt = ''2024-01-01T00:00:00Z'', Langs = [], Facets = [],
            Embed = VideoPtr (Some \<lparr>EmbedVideo.Type = ''app.bsky.embed.video'',
                                   Video = exampleBlob, AspectRatio = None, Alt = '''',
                                   Captions = []\<rparr>)\<rparr>])"
proof -
  let ?args = "exampleArgs \<lparr>VideoPath := ''clip.mp4'', VideoAltText := ''   ''\<rparr>"
  have session: "createSession cachedWorld (PDSURL ?args) (Handle ?args) (Password ?args)
                   = Inr \<lparr>AccessToken = ''jwt'', UserID = ''did:plc:test''\<rparr>"
    by (rule exampleWorld_session)
  have given: "VideoPath ?args \<noteq> ''''"
    by (simp add: exampleArgs_def)
  have blank: "TrimSpace ''   '' = ''''"
    by code_simp
  let ?session = "\<lparr>AccessToken = ''jwt'', UserID = ''did:plc:test''\<rparr>"
  have "processVideos cachedWorld (PDSURL ?args) (AccessToken ?session) (UserID ?session)
          (VideoPath ?args) (VideoAltText ?args) [CreateSession (PDSURL ?args) (Handle ?args)]
        = (Inr (Some \<lparr>EmbedVideo.Type = ''app.bsky.embed.video'', Video = exampleBlob,
                       AspectRatio = None, Alt = '''', Captions = []\<rparr>),
           [CreateSession ''https://bsky.social'' ''alice.test'', ReadFile ''clip.mp4'',
            GetServiceAuth ''https://bsky.social'', UploadVideo ''clip.mp4'' ''video/mp4'' 1024])"
    by (simp add: exampleArgs_def cachedWorld_video blank)
  from main_video_done [OF session given this]
  show ?thesis
    by (simp add: submits_def postWith_def exampleArgs_def cachedWorld_def exampleWorld_def)
qed

end
